theory Spec2Isabelle
  imports Complex_Main "HOL-Library.Log_Nat" "HOL-Library.AList" "HOL-Library.Sublist"
begin

section \<open>JavaScript numbers\<close>

text \<open>
  Every price, fee rate and spread of \<^verbatim>\<open>src/index.ts\<close> is a JavaScript \<^verbatim>\<open>number\<close>: an IEEE 754
  binary64 value. A finite value is kept as the rational it denotes; the two zeros, the two
  infinities and NaN are constructors of their own. \<open>Num 0\<close> is \<open>+0\<close>.
\<close>

datatype number = NaN | PosInfinity | NegInfinity | NegZero | Num rat

definition pow2 :: "int \<Rightarrow> rat" where
  "pow2 k = (if 0 \<le> k then 2 ^ nat k else 1 / 2 ^ nat (- k))"

definition ilog2 :: "rat \<Rightarrow> int" where
  \<comment> \<open>the binary exponent of a nonzero rational: \<open>2 ^ ilog2 x \<le> \<bar>x\<bar> < 2 ^ (ilog2 x + 1)\<close>\<close>
  "ilog2 x = (if 1 \<le> \<bar>x\<bar> then bitlen \<lfloor>\<bar>x\<bar>\<rfloor> - 1 else - bitlen (\<lceil>1 / \<bar>x\<bar>\<rceil> - 1))"

definition round_half_even :: "rat \<Rightarrow> int" where
  "round_half_even q =
     (let f = \<lfloor>q\<rfloor>; d = q - of_int f
      in if d < 1 / 2 then f else if 1 / 2 < d then f + 1 else if even f then f else f + 1)"

definition round64 :: "rat \<Rightarrow> number" where
  \<comment> \<open>round to nearest, ties to even, with 53 significant bits, gradual underflow below
      \<open>2 ^ -1022\<close> and overflow to an infinity from \<open>2 ^ 1024 - 2 ^ 970\<close> on\<close>
  "round64 x =
     (let e = max (ilog2 x) (- 1022);
          ulp = pow2 (e - 52);
          r = of_int (round_half_even (x / ulp)) * ulp
      in if pow2 1024 \<le> \<bar>r\<bar> then (if x < 0 then NegInfinity else PosInfinity)
         else if r = 0 then (if x < 0 then NegZero else Num 0)
         else Num r)"

fun is_infinite :: "number \<Rightarrow> bool" where
  "is_infinite PosInfinity = True"
| "is_infinite NegInfinity = True"
| "is_infinite _ = False"

fun is_zero :: "number \<Rightarrow> bool" where
  "is_zero NegZero = True"
| "is_zero (Num r) = (r = 0)"
| "is_zero _ = False"

fun negative :: "number \<Rightarrow> bool" where
  "negative NegInfinity = True"
| "negative NegZero = True"
| "negative (Num r) = (r < 0)"
| "negative _ = False"

fun val :: "number \<Rightarrow> rat" where
  "val (Num r) = r"
| "val _ = 0"

definition zero :: "bool \<Rightarrow> number" where
  "zero neg = (if neg then NegZero else Num 0)"

definition infinity :: "bool \<Rightarrow> number" where
  "infinity neg = (if neg then NegInfinity else PosInfinity)"

fun fneg :: "number \<Rightarrow> number" where
  "fneg NaN = NaN"
| "fneg PosInfinity = NegInfinity"
| "fneg NegInfinity = PosInfinity"
| "fneg NegZero = Num 0"
| "fneg (Num r) = (if r = 0 then NegZero else Num (- r))"

definition fadd :: "number \<Rightarrow> number \<Rightarrow> number" where
  "fadd a b =
     (if a = NaN \<or> b = NaN then NaN
      else if is_infinite a then (if is_infinite b \<and> negative a \<noteq> negative b then NaN else a)
      else if is_infinite b then b
      else if val a + val b = 0
        then (if is_zero a \<and> is_zero b \<and> negative a \<and> negative b then NegZero else Num 0)
      else round64 (val a + val b))"

definition fsub :: "number \<Rightarrow> number \<Rightarrow> number" where
  "fsub a b = fadd a (fneg b)"

definition fmul :: "number \<Rightarrow> number \<Rightarrow> number" where
  "fmul a b =
     (if a = NaN \<or> b = NaN then NaN
      else if is_infinite a \<or> is_infinite b
        then (if is_zero a \<or> is_zero b then NaN else infinity (negative a \<noteq> negative b))
      else if is_zero a \<or> is_zero b then zero (negative a \<noteq> negative b)
      else round64 (val a * val b))"

definition fdiv :: "number \<Rightarrow> number \<Rightarrow> number" where
  "fdiv a b =
     (if a = NaN \<or> b = NaN then NaN
      else if is_infinite a then (if is_infinite b then NaN else infinity (negative a \<noteq> negative b))
      else if is_infinite b then zero (negative a \<noteq> negative b)
      else if is_zero b then (if is_zero a then NaN else infinity (negative a \<noteq> negative b))
      else if is_zero a then zero (negative a \<noteq> negative b)
      else round64 (val a / val b))"

definition truthy :: "number \<Rightarrow> bool" where
  \<comment> \<open>ToBoolean: \<open>+0\<close>, \<open>-0\<close> and NaN are false\<close>
  "truthy n = (n \<noteq> NaN \<and> \<not> is_zero n)"


subsection \<open>Number.prototype.toFixed\<close>

definition digit :: "nat \<Rightarrow> char" where
  "digit d = ''0123456789'' ! d"

fun digits :: "nat \<Rightarrow> string" where
  "digits n = (if n < 10 then [digit n] else digits (n div 10) @ [digit (n mod 10)])"

declare digits.simps [simp del]

definition fixed_digits :: "nat \<Rightarrow> rat \<Rightarrow> string" where
  \<comment> \<open>step 11 of toFixed, for \<open>0 \<le> x < 10 ^ 21\<close>: the integer \<open>n\<close> nearest to \<open>x * 10 ^ f\<close>
      (the larger of two), its digits padded to \<open>f + 1\<close>, and the point before the last \<open>f\<close>\<close>
  "fixed_digits f x =
     (let n = nat \<lfloor>x * 10 ^ f + 1 / 2\<rfloor>;
          m = digits n;
          m = replicate (f + 1 - length m) (CHR ''0'') @ m
      in if f = 0 then m else take (length m - f) m @ ''.'' @ drop (length m - f) m)"

definition shortest_digits :: "rat \<Rightarrow> nat \<Rightarrow> (nat \<times> nat) option" where
  \<comment> \<open>for an integer-valued double \<open>x\<close> and a digit count \<open>k\<close>: the \<open>k\<close>-digit \<open>s\<close> and the
      exponent \<open>n\<close> with \<open>s * 10 ^ (n - k)\<close> rounding to \<open>x\<close>, the nearest such if there are two\<close>
  "shortest_digits x k =
     (let i = nat \<lfloor>x\<rfloor>;
          d = length (digits i);
          p = 10 ^ (d - k);
          lo = i div p;
          ok = (\<lambda>s. round64 (of_nat (s * p)) = Num x);
          s = (if ok lo \<and> ok (lo + 1)
               then (if i - lo * p < (lo + 1) * p - i then lo
                     else if (lo + 1) * p - i < i - lo * p then lo + 1
                     else if even lo then lo else lo + 1)
               else if ok lo then lo else lo + 1)
      in if \<not> ok lo \<and> \<not> ok (lo + 1) then None
         else if s = 10 ^ k then Some (10 ^ (k - 1), d + 1)
         else Some (s, d))"

definition toString_large :: "rat \<Rightarrow> string" where
  \<comment> \<open>Number::toString for a finite \<open>x \<ge> 10 ^ 21\<close> (so \<open>x\<close> is an integer): the fewest digits
      that read back as \<open>x\<close>, in exponent form\<close>
  "toString_large x =
     (case List.map_filter (shortest_digits x) [1..<18] of
        [] \<Rightarrow> []
      | (s, n) # _ \<Rightarrow>
          (case digits s of
             [] \<Rightarrow> []
           | c # cs \<Rightarrow> c # (if cs = [] then [] else ''.'' @ cs) @ ''e+'' @ digits (n - 1)))"

definition toFixed :: "nat \<Rightarrow> number \<Rightarrow> string" where
  "toFixed f x =
     (case x of
        NaN \<Rightarrow> ''NaN''
      | PosInfinity \<Rightarrow> ''Infinity''
      | NegInfinity \<Rightarrow> ''-Infinity''
      | NegZero \<Rightarrow> fixed_digits f 0
      | Num r \<Rightarrow>
          (if r < 0 then ''-'' else [])
          @ (if 10 ^ 21 \<le> \<bar>r\<bar> then toString_large \<bar>r\<bar> else fixed_digits f \<bar>r\<bar>))"


subsection \<open>parseFloat\<close>

definition is_digit :: "char \<Rightarrow> bool" where
  "is_digit c = (c \<in> set ''0123456789'')"

definition digit_value :: "char \<Rightarrow> nat" where
  "digit_value c = length (takeWhile (\<lambda>d. d \<noteq> c) ''0123456789'')"

definition decimal_value :: "string \<Rightarrow> nat" where
  "decimal_value ds = foldl (\<lambda>a c. 10 * a + digit_value c) 0 ds"

definition is_whitespace :: "char \<Rightarrow> bool" where
  \<comment> \<open>StrWhiteSpaceChar among the code units below 256: tab, line feed, vertical tab, form
      feed, carriage return, space and the no-break space\<close>
  "is_whitespace c =
     (c \<in> {CHR 0x09, CHR 0x0A, CHR 0x0B, CHR 0x0C, CHR 0x0D, CHR 0x20, CHR 0xA0})"

definition exponent_part :: "string \<Rightarrow> int" where
  \<comment> \<open>ExponentPart at the head of the rest: \<open>e\<close> or \<open>E\<close>, an optional sign, digits; \<open>0\<close> if
      there is none\<close>
  "exponent_part r =
     (case r of
        [] \<Rightarrow> 0
      | c # r1 \<Rightarrow>
          if c = CHR ''e'' \<or> c = CHR ''E'' then
            (case r1 of
               [] \<Rightarrow> 0
             | d # r2 \<Rightarrow>
                 if d = CHR ''-'' then - int (decimal_value (takeWhile is_digit r2))
                 else if d = CHR ''+'' then int (decimal_value (takeWhile is_digit r2))
                 else int (decimal_value (takeWhile is_digit r1)))
          else 0)"

definition pow10 :: "int \<Rightarrow> rat" where
  "pow10 k = (if 0 \<le> k then 10 ^ nat k else 1 / 10 ^ nat (- k))"

definition parseFloat_string :: "string \<Rightarrow> number" where
  \<comment> \<open>the longest prefix, after leading white space, that is a StrDecimalLiteral\<close>
  "parseFloat_string str =
     (let s1 = dropWhile is_whitespace str;
          neg = (s1 \<noteq> [] \<and> hd s1 = CHR ''-'');
          s2 = (if s1 \<noteq> [] \<and> (hd s1 = CHR ''-'' \<or> hd s1 = CHR ''+'') then tl s1 else s1)
      in if prefix ''Infinity'' s2 then infinity neg
         else
           (let ip = takeWhile is_digit s2;
                r1 = dropWhile is_digit s2;
                has_point = (r1 \<noteq> [] \<and> hd r1 = CHR ''.'');
                fp = (if has_point then takeWhile is_digit (tl r1) else []);
                r2 = (if has_point then dropWhile is_digit (tl r1) else r1)
            in if ip = [] \<and> fp = [] then NaN
               else
                 (let mv = (of_nat (decimal_value ip)
                            + of_nat (decimal_value fp) / 10 ^ length fp) * pow10 (exponent_part r2)
                  in if mv = 0 then zero neg else round64 (if neg then - mv else mv))))"

section \<open>JavaScript values\<close>

text \<open>
  What \<^verbatim>\<open>JSON.parse\<close> returns, and \<^verbatim>\<open>undefined\<close> for a property that is not there. An object
  is the list of its own properties; a key is looked up with \<^const>\<open>map_of\<close>. A string is the
  list of its code units, each below 256: a \<^typ>\<open>char\<close> is the code unit of that number.
\<close>

datatype jsval =
    JUndefined
  | JNull
  | JBool bool
  | JNum number
  | JStr string
  | JArr "jsval list"
  | JObj "(string \<times> jsval) list"

datatype error =
    SyntaxError
  | TypeError
  | NotOpen
  | Thrown string

text \<open>
  An inbound frame is kept as what \<^verbatim>\<open>JSON.parse\<close> makes of its text: \<open>None\<close> is a text that is not
  JSON, on which \<^verbatim>\<open>JSON.parse\<close> throws a SyntaxError.
\<close>

type_synonym frame = "jsval option"

definition JSON_parse :: "frame \<Rightarrow> error + jsval" where
  "JSON_parse data = (case data of None \<Rightarrow> Inl SyntaxError | Some v \<Rightarrow> Inr v)"

fun get_prop :: "jsval \<Rightarrow> string \<Rightarrow> error + jsval" where
  \<comment> \<open>\<^verbatim>\<open>v.k\<close> for the keys the source reads (\<^verbatim>\<open>method\<close>, \<^verbatim>\<open>params\<close>, \<^verbatim>\<open>data\<close>, \<^verbatim>\<open>stream\<close>, \<^verbatim>\<open>c\<close>), none
      of which a primitive or an array has: a TypeError on \<^verbatim>\<open>undefined\<close> and \<^verbatim>\<open>null\<close>\<close>
  "get_prop JUndefined k = Inl TypeError"
| "get_prop JNull k = Inl TypeError"
| "get_prop (JObj kvs) k = Inr (case map_of kvs k of None \<Rightarrow> JUndefined | Some v \<Rightarrow> v)"
| "get_prop _ k = Inr JUndefined"

fun js_truthy :: "jsval \<Rightarrow> bool" where
  "js_truthy JUndefined = False"
| "js_truthy JNull = False"
| "js_truthy (JBool b) = b"
| "js_truthy (JNum n) = truthy n"
| "js_truthy (JStr s) = (s \<noteq> [])"
| "js_truthy (JArr xs) = True"
| "js_truthy (JObj kvs) = True"

fun truthy_number :: "number option \<Rightarrow> bool" where
  \<comment> \<open>the truth value of a \<^verbatim>\<open>number | undefined\<close>\<close>
  "truthy_number None = False"
| "truthy_number (Some n) = truthy n"

fun ToString_throws :: "jsval \<Rightarrow> bool" where
  \<comment> \<open>ToString calls the \<^verbatim>\<open>toString\<close> of an object. An own property of that name is no function
      when it comes from JSON, \<^verbatim>\<open>valueOf\<close> returns no primitive, and the conversion ends in
      a TypeError; the \<^verbatim>\<open>toString\<close> of an array converts every element but \<^verbatim>\<open>null\<close>\<close>
  "ToString_throws (JObj kvs) = (''toString'' \<in> fst ` set kvs)"
| "ToString_throws (JArr vs) = (\<exists>v \<in> set vs. ToString_throws v)"
| "ToString_throws _ = False"

fun parseFloat_ToString :: "jsval \<Rightarrow> number" where
  \<comment> \<open>\<^verbatim>\<open>parseFloat\<close> of the string that ToString returns. A number prints as the digits that read
      back as itself, \<open>-0\<close> as \<^verbatim>\<open>0\<close>; an array prints its elements separated by commas, so only
      the first counts; \<^verbatim>\<open>undefined\<close>, \<^verbatim>\<open>null\<close>, \<^verbatim>\<open>true\<close>, \<^verbatim>\<open>[object Object]\<close> are no numbers\<close>
  "parseFloat_ToString (JStr s) = parseFloat_string s"
| "parseFloat_ToString (JNum n) = (if n = NegZero then Num 0 else n)"
| "parseFloat_ToString (JArr (v # vs)) = parseFloat_ToString v"
| "parseFloat_ToString _ = NaN"

definition parseFloat :: "jsval \<Rightarrow> error + number" where
  \<comment> \<open>\<^verbatim>\<open>parseFloat(v)\<close>: ToString, which may throw, and then the number at the head of the string\<close>
  "parseFloat v = (if ToString_throws v then Inl TypeError else Inr (parseFloat_ToString v))"

definition upper_case :: string where
  \<comment> \<open>the code units below 256 that are upper case letters: A to Z, and U+00C0 to U+00DE
      without the multiplication sign U+00D7\<close>
  "upper_case =
     ''ABCDEFGHIJKLMNOPQRSTUVWXYZ''
     @ [CHR 0xC0, CHR 0xC1, CHR 0xC2, CHR 0xC3, CHR 0xC4, CHR 0xC5, CHR 0xC6, CHR 0xC7,
        CHR 0xC8, CHR 0xC9, CHR 0xCA, CHR 0xCB, CHR 0xCC, CHR 0xCD, CHR 0xCE, CHR 0xCF,
        CHR 0xD0, CHR 0xD1, CHR 0xD2, CHR 0xD3, CHR 0xD4, CHR 0xD5, CHR 0xD6,
        CHR 0xD8, CHR 0xD9, CHR 0xDA, CHR 0xDB, CHR 0xDC, CHR 0xDD, CHR 0xDE]"

definition lower_case :: string where
  \<comment> \<open>their lower case letters, in the same order: each is 32 above\<close>
  "lower_case =
     ''abcdefghijklmnopqrstuvwxyz''
     @ [CHR 0xE0, CHR 0xE1, CHR 0xE2, CHR 0xE3, CHR 0xE4, CHR 0xE5, CHR 0xE6, CHR 0xE7,
        CHR 0xE8, CHR 0xE9, CHR 0xEA, CHR 0xEB, CHR 0xEC, CHR 0xED, CHR 0xEE, CHR 0xEF,
        CHR 0xF0, CHR 0xF1, CHR 0xF2, CHR 0xF3, CHR 0xF4, CHR 0xF5, CHR 0xF6,
        CHR 0xF8, CHR 0xF9, CHR 0xFA, CHR 0xFB, CHR 0xFC, CHR 0xFD, CHR 0xFE]"

definition toLowerCase :: "string \<Rightarrow> string" where
  "toLowerCase str =
     map (\<lambda>c. case map_of (zip upper_case lower_case) c of None \<Rightarrow> c | Some l \<Rightarrow> l) str"

fun split :: "char \<Rightarrow> string \<Rightarrow> string list" where
  \<comment> \<open>\<^verbatim>\<open>str.split(sep)\<close> for a separator of one character\<close>
  "split sep [] = [[]]"
| "split sep (c # cs) =
     (if c = sep then [] # split sep cs
      else (case split sep cs of [] \<Rightarrow> [[c]] | x # xs \<Rightarrow> (c # x) # xs))"


section \<open>The price monitor server\<close>

record PairConfig =
  serumMarketAddress :: string
  binanceSymbol :: string
  name :: string
  programId :: string

record PriceDifferenceData =
  binancePrice :: number
  serumPrice :: number
  priceDifference :: number
  percentDifference :: string
  pair :: string
  timestamp :: string

definition TRADING_PAIRS :: "PairConfig list" where
  "TRADING_PAIRS =
     [\<lparr>serumMarketAddress = ''CVfYa8RGXnuDBeGmniCcdkBwoLqVxh92xB1JqgRQx3F'',
       binanceSymbol = ''BTCUSDC'',
       name = ''BTC/USDC'',
       programId = ''EUqojwWA2rd19FZrzeBncJsm38Jm1hEhE3zsmX3bRc2o''\<rparr>,
      \<lparr>serumMarketAddress = ''H5uzEytiByuXt964KampmuNCurNDwkVVypkym75J2DQW'',
       binanceSymbol = ''ETHUSDC'',
       name = ''ETH/USDC'',
       programId = ''EUqojwWA2rd19FZrzeBncJsm38Jm1hEhE3zsmX3bRc2o''\<rparr>,
      \<lparr>serumMarketAddress = ''7xMDbYTCqQEcK2aM9LbetGtNFJpzKdfXzLL5juaLh4GJ'',
       binanceSymbol = ''SOLUSDC'',
       name = ''SOL/USDC'',
       programId = ''EUqojwWA2rd19FZrzeBncJsm38Jm1hEhE3zsmX3bRc2o''\<rparr>]"

text \<open>
  A message handed to \<^verbatim>\<open>ws.send\<close>, before \<^verbatim>\<open>JSON.stringify\<close>: the batch
  \<^verbatim>\<open>{type: "all", data: [...]}\<close> or one bare record.
\<close>

datatype message = AllMessage "PriceDifferenceData list" | PairMessage PriceDifferenceData

datatype readyState = CONNECTING | OPEN | CLOSING | CLOSED

datatype console_entry = ConsoleLog string | ConsoleError string error

datatype callback = StartBinanceWebSockets | UpdateAllSerumPrices

datatype timer = Timeout nat callback | Interval nat nat callback

text \<open>
  The fields of \<^verbatim>\<open>PriceMonitorServer\<close>, and below them the part of the world the class acts on.
  A socket is the number it was created with, \<open>sockets\<close> counts them, and \<open>binance_sockets\<close>
  are the ones \<^verbatim>\<open>startBinanceWebSockets\<close> made and put its listeners on; \<open>readyState\<close> and
  \<open>sent\<close> are the state of the socket objects, \<open>now\<close> is the time in milliseconds, \<open>pending\<close>
  the timers of \<^verbatim>\<open>setTimeout\<close> and \<^verbatim>\<open>setInterval\<close> with the time they are due at, \<open>console\<close>
  what was logged, and \<open>clock (date_reads)\<close> what the next \<^verbatim>\<open>new Date().toISOString()\<close> returns.
  A market handle is the address it was loaded from.
\<close>

record server =
  solanaConnection :: "string option"
  markets :: "(string \<times> string) list"
  binanceWs :: "nat option"
  clients :: "nat list"
  lastBinancePrices :: "string \<rightharpoonup> number"
  lastSerumPrices :: "string \<rightharpoonup> number"
  binanceFeeRate :: number
  solanaFeeRate :: number
  profitabilityThreshold :: number
  sockets :: nat
  binance_sockets :: "nat list"
  readyState :: "nat \<Rightarrow> readyState"
  sent :: "nat \<Rightarrow> message list"
  now :: nat
  pending :: "timer list"
  console :: "console_entry list"
  clock :: "nat \<Rightarrow> string"
  date_reads :: nat

definition console_log :: "string \<Rightarrow> server \<Rightarrow> server" where
  "console_log text s = s\<lparr>console := console s @ [ConsoleLog text]\<rparr>"

definition console_error :: "string \<Rightarrow> error \<Rightarrow> server \<Rightarrow> server" where
  "console_error text e s = s\<lparr>console := console s @ [ConsoleError text e]\<rparr>"

definition deliver :: "nat \<Rightarrow> message \<Rightarrow> server \<Rightarrow> server" where
  "deliver ws m s = s\<lparr>sent := (sent s)(ws := sent s ws @ [m])\<rparr>"

definition ws_send :: "nat \<Rightarrow> message \<Rightarrow> server \<Rightarrow> error option \<times> server" where
  \<comment> \<open>\<^verbatim>\<open>ws.send(data)\<close> with no callback, as ws 8 has it: it throws on a socket that is still
      connecting and drops the data on one that is closing or closed\<close>
  "ws_send ws m s =
     (case readyState s ws of
        OPEN \<Rightarrow> (None, deliver ws m s)
      | CONNECTING \<Rightarrow> (Some NotOpen, s)
      | _ \<Rightarrow> (None, s))"

subsection \<open>Spread records\<close>

definition calculatePriceDifference ::
  "string \<Rightarrow> number \<Rightarrow> number \<Rightarrow> server \<Rightarrow> PriceDifferenceData \<times> server" where
  "calculatePriceDifference pair' binancePrice' serumPrice' s =
     (let binancePriceAfterFees = fmul binancePrice' (fsub (Num 1) (binanceFeeRate s));
          serumPriceAfterFees = fmul serumPrice' (fsub (Num 1) (solanaFeeRate s));
          priceDifference' = fsub binancePriceAfterFees serumPriceAfterFees;
          percentDifference' = fmul (fdiv priceDifference' serumPriceAfterFees) (Num 100)
      in (\<lparr>binancePrice = binancePrice',
           serumPrice = serumPrice',
           priceDifference = priceDifference',
           percentDifference = toFixed 2 percentDifference',
           pair = pair',
           timestamp = clock s (date_reads s)\<rparr>,
          s\<lparr>date_reads := Suc (date_reads s)\<rparr>))"

fun map_pairs :: "PairConfig list \<Rightarrow> server \<Rightarrow> PriceDifferenceData option list \<times> server" where
  \<comment> \<open>the \<^verbatim>\<open>map\<close> of \<^verbatim>\<open>getAllPairData\<close>: a record, or \<^verbatim>\<open>null\<close>, for each pair in turn\<close>
  "map_pairs [] s = ([], s)"
| "map_pairs (p # ps) s =
     (let binancePrice' = lastBinancePrices s (name p);
          serumPrice' = lastSerumPrices s (name p)
      in case (binancePrice', serumPrice') of
           (Some b, Some a) \<Rightarrow>
             if truthy b \<and> truthy a
             then (let (d, s1) = calculatePriceDifference (name p) b a s;
                       (ds, s2) = map_pairs ps s1
                   in (Some d # ds, s2))
             else (let (ds, s2) = map_pairs ps s in (None # ds, s2))
         | _ \<Rightarrow> (let (ds, s2) = map_pairs ps s in (None # ds, s2)))"

definition getAllPairData :: "server \<Rightarrow> PriceDifferenceData list \<times> server" where
  "getAllPairData s =
     (let (ds, s1) = map_pairs TRADING_PAIRS s
      in (map the (filter (\<lambda>d. d \<noteq> None) ds), s1))"

subsection \<open>Client subscriptions\<close>

definition sendSinglePairData :: "nat \<Rightarrow> string option \<Rightarrow> server \<Rightarrow> error option \<times> server" where
  \<comment> \<open>\<open>pair' = None\<close> is \<^verbatim>\<open>undefined\<close>, under which neither map holds a price\<close>
  "sendSinglePairData ws pair' s =
     (case pair' of
        None \<Rightarrow> (None, s)
      | Some p \<Rightarrow>
          (case (lastBinancePrices s p, lastSerumPrices s p) of
             (Some b, Some a) \<Rightarrow>
               if truthy b \<and> truthy a
               then (let (d, s1) = calculatePriceDifference p b a s
                     in ws_send ws (PairMessage d) s1)
               else (None, s)
           | _ \<Rightarrow> (None, s)))"

definition sendAllPairData :: "nat \<Rightarrow> server \<Rightarrow> error option \<times> server" where
  "sendAllPairData ws s =
     (let (allData, s1) = getAllPairData s in ws_send ws (AllMessage allData) s1)"

fun forEach_param :: "nat \<Rightarrow> jsval list \<Rightarrow> server \<Rightarrow> error option \<times> server" where
  \<comment> \<open>the \<^verbatim>\<open>forEach\<close> of \<^verbatim>\<open>handleSubscription\<close>; \<^verbatim>\<open>param.split\<close> is a TypeError on anything
      but a string, and ends the loop\<close>
  "forEach_param ws [] s = (None, s)"
| "forEach_param ws (param # params) s =
     (case param of
        JStr str \<Rightarrow>
          (let parts = split (CHR ''.'') str;
               type = hd parts;
               pair' = (if 1 < length parts then Some (parts ! 1) else None)
           in if type = ''difference''
              then (case sendSinglePairData ws pair' s of
                      (Some e, s1) \<Rightarrow> (Some e, s1)
                    | (None, s1) \<Rightarrow> forEach_param ws params s1)
              else forEach_param ws params s)
      | _ \<Rightarrow> (Some TypeError, s))"

definition handleSubscription :: "nat \<Rightarrow> jsval \<Rightarrow> server \<Rightarrow> error option \<times> server" where
  \<comment> \<open>\<^verbatim>\<open>params.includes\<close> is Array.prototype.includes on an array and a substring test on a
      string, which has no \<^verbatim>\<open>forEach\<close>; nothing else has an \<^verbatim>\<open>includes\<close>\<close>
  "handleSubscription ws params s =
     (case params of
        JArr xs \<Rightarrow>
          if JStr ''difference.all'' \<in> set xs then sendAllPairData ws s
          else forEach_param ws xs s
      | JStr str \<Rightarrow>
          if sublist ''difference.all'' str then sendAllPairData ws s
          else (Some TypeError, s)
      | _ \<Rightarrow> (Some TypeError, s))"

definition on_client_message :: "nat \<Rightarrow> frame \<Rightarrow> server \<Rightarrow> server" where
  \<comment> \<open>the \<^verbatim>\<open>message\<close> listener of a client socket: everything thrown inside is caught and logged\<close>
  "on_client_message ws data s =
     (case JSON_parse data of
        Inl e \<Rightarrow> console_error ''Error parsing message:'' e s
      | Inr parsedMessage \<Rightarrow>
          (case get_prop parsedMessage ''method'' of
             Inl e \<Rightarrow> console_error ''Error parsing message:'' e s
           | Inr method \<Rightarrow>
               if method = JStr ''SUBSCRIBE''
               then (case get_prop parsedMessage ''params'' of
                       Inl e \<Rightarrow> console_error ''Error parsing message:'' e s
                     | Inr params \<Rightarrow>
                         (case handleSubscription ws params s of
                            (Some e, s1) \<Rightarrow> console_error ''Error parsing message:'' e s1
                          | (None, s1) \<Rightarrow> s1))
               else s))"

definition on_connection :: "server \<Rightarrow> server" where
  \<comment> \<open>the \<^verbatim>\<open>connection\<close> listener: the server library hands over a new, open socket\<close>
  "on_connection s =
     (let ws = sockets s;
          s1 = s\<lparr>sockets := Suc ws, readyState := (readyState s)(ws := OPEN),
                 sent := (sent s)(ws := [])\<rparr>;
          s2 = console_log ''Client connected'' s1
      in s2\<lparr>clients := (if ws \<in> set (clients s2) then clients s2 else clients s2 @ [ws])\<rparr>)"

definition on_client_close :: "nat \<Rightarrow> server \<Rightarrow> server" where
  "on_client_close ws s =
     (let s1 = console_log ''Client disconnected'' s
      in s1\<lparr>clients := removeAll ws (clients s1)\<rparr>)"

subsection \<open>Broadcast\<close>

fun send_each :: "nat list \<Rightarrow> message \<Rightarrow> server \<Rightarrow> server" where
  \<comment> \<open>\<^verbatim>\<open>this.clients.forEach\<close>: only a client whose socket is open is sent the message\<close>
  "send_each [] m s = s"
| "send_each (client # rest) m s =
     send_each rest m (if readyState s client = OPEN then deliver client m s else s)"

definition broadcastPrices :: "server \<Rightarrow> server" where
  "broadcastPrices s =
     (let (allData, s1) = getAllPairData s
      in if 0 < length allData then send_each (clients s1) (AllMessage allData) s1 else s1)"


subsection \<open>The exchange feed\<close>

fun find_pair :: "jsval \<Rightarrow> PairConfig list \<Rightarrow> error + PairConfig option" where
  \<comment> \<open>\<^verbatim>\<open>TRADING_PAIRS.find\<close>: the predicate reads \<^verbatim>\<open>message.stream.split('@')[0]\<close> at each pair
      it is tried on, and throws a TypeError unless \<^verbatim>\<open>message.stream\<close> is a string\<close>
  "find_pair message' [] = Inr None"
| "find_pair message' (p # ps) =
     (case get_prop message' ''stream'' of
        Inl e \<Rightarrow> Inl e
      | Inr (JStr stream) \<Rightarrow>
          if toLowerCase (binanceSymbol p) = hd (split (CHR ''@'') stream) then Inr (Some p)
          else find_pair message' ps
      | Inr _ \<Rightarrow> Inl TypeError)"

definition on_binance_message :: "frame \<Rightarrow> server \<Rightarrow> error + server" where
  \<comment> \<open>the \<^verbatim>\<open>message\<close> listener of the exchange socket; nothing in it is caught, so \<open>Inl\<close> is an
      exception that leaves the listener\<close>
  "on_binance_message data s =
     (case JSON_parse data of
        Inl e \<Rightarrow> Inl e
      | Inr message' \<Rightarrow>
          (case get_prop message' ''data'' of
             Inl e \<Rightarrow> Inl e
           | Inr ticker \<Rightarrow>
               if js_truthy ticker then
                 (case find_pair message' TRADING_PAIRS of
                    Inl e \<Rightarrow> Inl e
                  | Inr None \<Rightarrow> Inr s
                  | Inr (Some pair') \<Rightarrow>
                      (case get_prop ticker ''c'' of
                         Inl e \<Rightarrow> Inl e
                       | Inr c \<Rightarrow>
                           (case parseFloat c of
                              Inl e \<Rightarrow> Inl e
                            | Inr price \<Rightarrow>
                                Inr (broadcastPrices
                                       (s\<lparr>lastBinancePrices :=
                                            (lastBinancePrices s)(name pair' \<mapsto> price)\<rparr>)))))
               else Inr s))"

definition startBinanceWebSockets :: "server \<Rightarrow> server" where
  \<comment> \<open>\<^verbatim>\<open>new WebSocket(wsUrl)\<close>: a new socket, connecting, with the four listeners on it\<close>
  "startBinanceWebSockets s =
     (let ws = sockets s
      in s\<lparr>sockets := Suc ws,
           binance_sockets := binance_sockets s @ [ws],
           readyState := (readyState s)(ws := CONNECTING),
           sent := (sent s)(ws := []),
           binanceWs := Some ws\<rparr>)"

definition setTimeout :: "callback \<Rightarrow> nat \<Rightarrow> server \<Rightarrow> server" where
  "setTimeout f delay s = s\<lparr>pending := pending s @ [Timeout (now s + delay) f]\<rparr>"

definition setInterval :: "callback \<Rightarrow> nat \<Rightarrow> server \<Rightarrow> server" where
  "setInterval f delay s = s\<lparr>pending := pending s @ [Interval (now s + delay) delay f]\<rparr>"

definition on_binance_open :: "server \<Rightarrow> server" where
  "on_binance_open s = console_log ''Connected to Binance WebSocket'' s"

definition on_binance_error :: "error \<Rightarrow> server \<Rightarrow> server" where
  "on_binance_error e s = console_error ''Binance WebSocket error:'' e s"

definition on_binance_close :: "server \<Rightarrow> server" where
  "on_binance_close s =
     setTimeout StartBinanceWebSockets 5000
       (console_log ''Binance WebSocket disconnected. Reconnecting...'' s)"

subsection \<open>The on-chain poll\<close>

text \<open>
  What one pass of the loop gets from \<^verbatim>\<open>loadBids\<close> and \<^verbatim>\<open>loadAsks\<close> for a market: an error
  thrown by either, or the two prices \<^verbatim>\<open>getL2(1)[0]?.[0]\<close>, each \<^verbatim>\<open>undefined\<close> on an empty side.
\<close>

type_synonym book = "error + number option \<times> number option"

definition update_price :: "string \<Rightarrow> book \<Rightarrow> server \<Rightarrow> server" where
  \<comment> \<open>the body of the loop of \<^verbatim>\<open>updateAllSerumPrices\<close> for one entry of \<^verbatim>\<open>markets\<close>\<close>
  "update_price pairName b s =
     (case b of
        Inl e \<Rightarrow> console_error (''Error updating Serum price for '' @ pairName @ '':'') e s
      | Inr (Some bestBid, Some bestAsk) \<Rightarrow>
          if truthy bestBid \<and> truthy bestAsk
          then (let midPrice = fdiv (fadd bestBid bestAsk) (Num 2)
                in s\<lparr>lastSerumPrices := (lastSerumPrices s)(pairName \<mapsto> midPrice)\<rparr>)
          else s
      | Inr _ \<Rightarrow> s)"

fun update_prices :: "(string \<times> string) list \<Rightarrow> (string \<Rightarrow> book) \<Rightarrow> server \<Rightarrow> server" where
  "update_prices [] fetch s = s"
| "update_prices ((pairName, market) # rest) fetch s =
     update_prices rest fetch (update_price pairName (fetch pairName) s)"

definition updateAllSerumPrices :: "(string \<Rightarrow> book) \<Rightarrow> server \<Rightarrow> server" where
  \<comment> \<open>\<open>fetch pairName\<close> is what this cycle reads from the market stored under \<open>pairName\<close>\<close>
  "updateAllSerumPrices fetch s =
     (if solanaConnection s = None then s
      else broadcastPrices (update_prices (markets s) fetch s))"

subsection \<open>Start-up\<close>

definition SOLANA_CLUSTER :: string where
  "SOLANA_CLUSTER = ''https://api.mainnet-beta.solana.com''"

definition constructor :: "(nat \<Rightarrow> string) \<Rightarrow> server" where
  \<comment> \<open>the state \<^verbatim>\<open>new PriceMonitorServer()\<close> starts in, at time \<open>0\<close>, under a given clock\<close>
  "constructor dates =
     \<lparr>solanaConnection = None,
      markets = [],
      binanceWs = None,
      clients = [],
      lastBinancePrices = Map.empty,
      lastSerumPrices = Map.empty,
      binanceFeeRate = round64 (1 / 1000),
      solanaFeeRate = round64 (3 / 1000),
      profitabilityThreshold = round64 (5 / 1000),
      sockets = 0,
      binance_sockets = [],
      readyState = (\<lambda>ws. CLOSED),
      sent = (\<lambda>ws. []),
      now = 0,
      pending = [],
      console = [],
      clock = dates,
      date_reads = 0\<rparr>"

fun load_markets :: "PairConfig list \<Rightarrow> (string \<Rightarrow> error + string) \<Rightarrow> server \<Rightarrow> server" where
  \<comment> \<open>\<open>load address\<close> is what \<^verbatim>\<open>Market.load\<close> does for the market at \<open>address\<close>\<close>
  "load_markets [] load s = s"
| "load_markets (p # ps) load s =
     load_markets ps load
       (case load (serumMarketAddress p) of
          Inr market \<Rightarrow>
            console_log (''Loaded market for '' @ name p)
              (s\<lparr>markets := AList.update (name p) market (markets s)\<rparr>)
        | Inl e \<Rightarrow> console_error (''Error loading market for '' @ name p @ '':'') e s)"

definition startSerumWebSockets :: "(string \<Rightarrow> book) \<Rightarrow> server \<Rightarrow> server" where
  \<comment> \<open>\<^const>\<open>updateAllSerumPrices\<close> catches what a fetch throws, so the \<^verbatim>\<open>catch\<close> here is not
      reached\<close>
  "startSerumWebSockets fetch s =
     console_log ''Serum WebSocket subscriptions established'' (updateAllSerumPrices fetch s)"

definition initialize :: "(string \<Rightarrow> error + string) \<Rightarrow> (string \<Rightarrow> book) \<Rightarrow> server \<Rightarrow> server" where
  "initialize load fetch s =
     (let s1 = load_markets TRADING_PAIRS load (s\<lparr>solanaConnection := Some SOLANA_CLUSTER\<rparr>);
          s2 = startBinanceWebSockets s1;
          s3 = startSerumWebSockets fetch s2;
          s4 = setInterval UpdateAllSerumPrices 1000 s3
      in console_log ''WebSocket server running on ws://localhost:3001'' s4)"

subsection \<open>Events\<close>

text \<open>
  The server runs one listener at a time. An event is what the event loop delivers next, with
  what it brings from outside: the frame of a message, the error of a failed transport, the
  books a poll reads. \<open>Elapse\<close> is time passing; \<open>Fire i\<close> runs the \<open>i\<close>-th pending timer.
\<close>

datatype event =
    Connection
  | ClientMessage nat frame
  | ClientClosing nat
  | ClientClose nat
  | BinanceOpen nat
  | BinanceMessage nat frame
  | BinanceError nat error
  | BinanceClose nat
  | Elapse nat
  | Fire nat "string \<Rightarrow> book"

fun due :: "timer \<Rightarrow> nat" where
  "due (Timeout t f) = t"
| "due (Interval t d f) = t"

fun enabled :: "event \<Rightarrow> server \<Rightarrow> bool" where
  \<comment> \<open>what the socket library and the timers allow: a socket speaks while it is open, closes
      once, and a timer does not fire before it is due\<close>
  "enabled Connection s = True"
| "enabled (ClientMessage ws data) s = (ws \<in> set (clients s) \<and> readyState s ws \<in> {OPEN, CLOSING})"
| "enabled (ClientClosing ws) s = (ws \<in> set (clients s) \<and> readyState s ws = OPEN)"
| "enabled (ClientClose ws) s = (ws \<in> set (clients s) \<and> readyState s ws \<noteq> CLOSED)"
| "enabled (BinanceOpen ws) s = (ws \<in> set (binance_sockets s) \<and> readyState s ws = CONNECTING)"
| "enabled (BinanceMessage ws data) s = (ws \<in> set (binance_sockets s) \<and> readyState s ws = OPEN)"
| "enabled (BinanceError ws e) s = (ws \<in> set (binance_sockets s) \<and> readyState s ws \<noteq> CLOSED)"
| "enabled (BinanceClose ws) s = (ws \<in> set (binance_sockets s) \<and> readyState s ws \<noteq> CLOSED)"
| "enabled (Elapse dt) s = True"
| "enabled (Fire i fetch) s = (i < length (pending s) \<and> due (pending s ! i) \<le> now s)"

definition set_state :: "nat \<Rightarrow> readyState \<Rightarrow> server \<Rightarrow> server" where
  "set_state ws st s = s\<lparr>readyState := (readyState s)(ws := st)\<rparr>"

fun call :: "callback \<Rightarrow> (string \<Rightarrow> book) \<Rightarrow> server \<Rightarrow> server" where
  "call StartBinanceWebSockets fetch s = startBinanceWebSockets s"
| "call UpdateAllSerumPrices fetch s = updateAllSerumPrices fetch s"

definition fire :: "nat \<Rightarrow> (string \<Rightarrow> book) \<Rightarrow> server \<Rightarrow> server" where
  "fire i fetch s =
     (case pending s ! i of
        Timeout t f \<Rightarrow> call f fetch (s\<lparr>pending := take i (pending s) @ drop (Suc i) (pending s)\<rparr>)
      | Interval t d f \<Rightarrow> call f fetch (s\<lparr>pending := (pending s)[i := Interval (now s + d) d f]\<rparr>))"

fun step :: "event \<Rightarrow> server \<Rightarrow> error + server" where
  "step Connection s = Inr (on_connection s)"
| "step (ClientMessage ws data) s = Inr (on_client_message ws data s)"
| "step (ClientClosing ws) s = Inr (set_state ws CLOSING s)"
| "step (ClientClose ws) s = Inr (on_client_close ws (set_state ws CLOSED s))"
| "step (BinanceOpen ws) s = Inr (on_binance_open (set_state ws OPEN s))"
| "step (BinanceMessage ws data) s = on_binance_message data s"
| "step (BinanceError ws e) s = Inr (on_binance_error e s)"
| "step (BinanceClose ws) s = Inr (on_binance_close (set_state ws CLOSED s))"
| "step (Elapse dt) s = Inr (s\<lparr>now := now s + dt\<rparr>)"
| "step (Fire i fetch) s = Inr (fire i fetch s)"

fun run :: "event list \<Rightarrow> server \<Rightarrow> server option" where
  \<comment> \<open>\<open>None\<close>: an event that cannot happen, or an exception that no listener caught, which ends
      the process\<close>
  "run [] s = Some s"
| "run (e # es) s =
     (if enabled e s then (case step e s of Inl err \<Rightarrow> None | Inr s1 \<Rightarrow> run es s1) else None)"


section \<open>The spread computation as the specification words it\<close>



section \<open>Exchange connections and their reconnects\<close>

definition live :: "server \<Rightarrow> nat list" where
  \<comment> \<open>the exchange sockets that are connecting or open\<close>
  "live s = filter (\<lambda>ws. readyState s ws \<noteq> CLOSED) (binance_sockets s)"

fun is_reconnect :: "timer \<Rightarrow> bool" where
  "is_reconnect (Timeout t StartBinanceWebSockets) = True"
| "is_reconnect _ = False"

definition reconnects :: "server \<Rightarrow> timer list" where
  \<comment> \<open>the pending \<^verbatim>\<open>setTimeout(() => this.startBinanceWebSockets(), ...)\<close>\<close>
  "reconnects s = filter is_reconnect (pending s)"

fun interval_connects :: "timer \<Rightarrow> bool" where
  "interval_connects (Interval t d StartBinanceWebSockets) = True"
| "interval_connects _ = False"

definition disciplined :: "server \<Rightarrow> bool" where
  \<comment> \<open>sockets are numbered below \<open>sockets\<close>, a client socket is no exchange socket, and no
      interval starts a connection\<close>
  "disciplined s \<longleftrightarrow>
     (\<forall>ws \<in> set (binance_sockets s). ws < sockets s)
     \<and> (\<forall>ws \<in> set (clients s). ws < sockets s \<and> ws \<notin> set (binance_sockets s))
     \<and> (\<forall>t \<in> set (pending s). \<not> interval_connects t)"

definition single_connection :: "server \<Rightarrow> bool" where
  \<comment> \<open>at most one exchange connection, alive or about to be made\<close>
  "single_connection s \<longleftrightarrow> disciplined s \<and> length (live s) + length (reconnects s) \<le> 1"

fun quiet :: "event \<Rightarrow> server \<Rightarrow> bool" where
  \<comment> \<open>an event that neither closes an exchange socket nor runs a reconnect\<close>
  "quiet (BinanceClose ws) s = False"
| "quiet (Fire i fetch) s = (\<not> is_reconnect (pending s ! i))"
| "quiet e s = True"

definition control :: "server \<Rightarrow> nat list \<times> timer list \<times> nat \<times> nat \<times> nat list \<times> (nat \<Rightarrow> readyState)" where
  \<comment> \<open>the part of the state that connections and timers depend on\<close>
  "control s = (binance_sockets s, pending s, now s, sockets s, clients s, readyState s)"

section \<open>Inputs of the examples\<close>

definition example_clock :: "nat \<Rightarrow> string" where
  "example_clock n = ''2024-01-01T00:00:00.000Z''"

definition example_load :: "string \<Rightarrow> error + string" where
  \<comment> \<open>every market loads\<close>
  "example_load address = Inr address"

definition example_books :: "string \<Rightarrow> book" where
  \<comment> \<open>every book has a best bid of 49899 and a best ask of 49901\<close>
  "example_books pairName = Inr (Some (Num 49899), Some (Num 49901))"

definition failing_books :: "string \<Rightarrow> book" where
  \<comment> \<open>the fetch for BTC/USDC throws, the book of SOL/USDC has no asks, and ETH/USDC has a best
      bid of 2999 and a best ask of 3001\<close>
  "failing_books pairName =
     (if pairName = ''BTC/USDC'' then Inl (Thrown ''429 Too Many Requests'')
      else if pairName = ''SOL/USDC'' then Inr (Some (Num 150), None)
      else Inr (Some (Num 2999), Some (Num 3001)))"

definition ticker_message :: "string \<Rightarrow> string \<Rightarrow> jsval" where
  \<comment> \<open>\<^verbatim>\<open>{"stream": stream, "data": {"c": c}}\<close>, the part of a ticker of the exchange that is read\<close>
  "ticker_message stream c =
     JObj [(''stream'', JStr stream), (''data'', JObj [(''c'', JStr c)])]"

definition ticker :: "string \<Rightarrow> string \<Rightarrow> frame" where
  "ticker stream c = Some (ticker_message stream c)"

definition subscribe :: "string list \<Rightarrow> frame" where
  \<comment> \<open>the frame \<^verbatim>\<open>{"method": "SUBSCRIBE", "params": topics}\<close> of a client\<close>
  "subscribe topics =
     Some (JObj [(''method'', JStr ''SUBSCRIBE''), (''params'', JArr (map JStr topics))])"

definition started :: server where
  \<comment> \<open>the server after \<^verbatim>\<open>initialize\<close>: three markets, a first poll, the exchange socket connecting\<close>
  "started = initialize example_load example_books (constructor example_clock)"

definition one_sided :: server where
  \<comment> \<open>one open client; BTC/USDC has an exchange price only, ETH/USDC both prices\<close>
  "one_sided =
     (constructor example_clock)
       \<lparr>clients := [0],
        lastBinancePrices := [''BTC/USDC'' \<mapsto> Num 50000, ''ETH/USDC'' \<mapsto> Num 3000],
        lastSerumPrices := [''ETH/USDC'' \<mapsto> Num 2990],
        sockets := 1,
        readyState := (\<lambda>ws. CLOSED)(0 := OPEN)\<rparr>"

definition zero_priced :: server where
  \<comment> \<open>one open client; the exchange price of BTC/USDC is \<open>0\<close>\<close>
  "zero_priced =
     (constructor example_clock)
       \<lparr>clients := [0],
        lastBinancePrices := [''BTC/USDC'' \<mapsto> Num 0],
        lastSerumPrices := [''BTC/USDC'' \<mapsto> Num 49900],
        sockets := 1,
        readyState := (\<lambda>ws. CLOSED)(0 := OPEN)\<rparr>"

fun pairs_of :: "message \<Rightarrow> string list" where
  "pairs_of (AllMessage ds) = map pair ds"
| "pairs_of (PairMessage d) = [pair d]"


section \<open>The rounding\<close>

text \<open>
  \<^const>\<open>ilog2\<close> is the binary exponent of its argument, and \<^const>\<open>round_half_even\<close> is off by
  at most a half: a finite result of \<^const>\<open>round64\<close> is within half a unit in the last place
  of its argument.
\<close>

lemma round_half_even_nearest: "\<bar>of_int (round_half_even q) - q\<bar> \<le> 1 / 2"
proof -
  have "of_int \<lfloor>q\<rfloor> \<le> q" "q < of_int \<lfloor>q\<rfloor> + 1"
    by linarith+
  then show ?thesis
    by (auto simp: round_half_even_def Let_def abs_le_iff)
qed

lemma pow2_nat: "0 \<le> k \<Longrightarrow> pow2 k = 2 ^ nat k"
  by (simp add: pow2_def)

lemma pow2_neg: "k \<le> 0 \<Longrightarrow> pow2 k = 1 / 2 ^ nat (- k)"
  by (cases "k = 0") (simp_all add: pow2_def)

lemma ilog2_bounds:
  assumes "x \<noteq> 0"
  shows "pow2 (ilog2 x) \<le> \<bar>x\<bar> \<and> \<bar>x\<bar> < pow2 (ilog2 x + 1)"
proof (cases "1 \<le> \<bar>x\<bar>")
  case True
  define n where "n = \<lfloor>\<bar>x\<bar>\<rfloor>"
  have n: "1 \<le> n" "of_int n \<le> \<bar>x\<bar>" "\<bar>x\<bar> < of_int n + 1"
    using True by (simp_all add: n_def le_floor_iff) linarith+
  then have b: "2 ^ nat (bitlen n - 1) \<le> n" "n < 2 ^ nat (bitlen n)"
    using bitlen_bounds [of n] by simp_all
  have pos: "1 \<le> bitlen n"
    using n(1) bitlen_nonneg [of n] bitlen_eq_zero_iff [of n] by linarith
  have "(2::rat) ^ nat (bitlen n - 1) \<le> of_int n"
    using of_int_le_iff [of "2 ^ nat (bitlen n - 1)" n, where ?'a = rat] b(1) by simp
  from order_trans [OF this n(2)] have lo: "pow2 (bitlen n - 1) \<le> \<bar>x\<bar>"
    using pos by (simp add: pow2_nat)
  have "n + 1 \<le> 2 ^ nat (bitlen n)"
    using b(2) by simp
  then have "(of_int n :: rat) + 1 \<le> 2 ^ nat (bitlen n)"
    using of_int_le_iff [of "n + 1" "2 ^ nat (bitlen n)", where ?'a = rat] by simp
  from less_le_trans [OF n(3) this] have hi: "\<bar>x\<bar> < pow2 (bitlen n)"
    using pos by (simp add: pow2_nat)
  show ?thesis
    using True lo hi by (simp add: ilog2_def n_def)
next
  case False
  define y where "y = 1 / \<bar>x\<bar>"
  define m where "m = \<lceil>y\<rceil>"
  have x: "0 < \<bar>x\<bar>" "\<bar>x\<bar> < 1"
    using assms False by simp_all
  then have y: "1 < y"
    by (simp add: y_def)
  have m: "y \<le> of_int m" "of_int m - 1 < y"
    by (simp_all add: m_def) linarith
  have "(1::rat) < of_int m"
    using y m(1) by linarith
  then have m1: "1 \<le> m - 1"
    by simp
  define k where "k = bitlen (m - 1)"
  have b: "2 ^ nat (k - 1) \<le> m - 1" "m - 1 < 2 ^ nat k"
    using bitlen_bounds [of "m - 1"] m1 by (simp_all add: k_def)
  have pos: "1 \<le> k"
    using m1 bitlen_nonneg [of "m - 1"] bitlen_eq_zero_iff [of "m - 1"] unfolding k_def by linarith
  have "m \<le> 2 ^ nat k"
    using b(2) by simp
  then have "(of_int m :: rat) \<le> 2 ^ nat k"
    using of_int_le_iff [of m "2 ^ nat k", where ?'a = rat] by simp
  from order_trans [OF m(1) this] have "y \<le> 2 ^ nat k" .
  then have "1 / 2 ^ nat k \<le> \<bar>x\<bar>"
    using x(1) by (simp add: y_def field_simps)
  then have lo: "pow2 (- k) \<le> \<bar>x\<bar>"
    using pos by (simp add: pow2_neg)
  have "(2::rat) ^ nat (k - 1) \<le> of_int (m - 1)"
    using of_int_le_iff [of "2 ^ nat (k - 1)" "m - 1", where ?'a = rat] b(1) by simp
  moreover have "(of_int (m - 1) :: rat) < y"
    using m(2) by simp
  ultimately have "2 ^ nat (k - 1) < y"
    by (rule le_less_trans)
  then have "\<bar>x\<bar> < 1 / 2 ^ nat (k - 1)"
    using x(1) by (simp add: y_def field_simps)
  moreover have "nat (- (- k + 1)) = nat (k - 1)"
    by simp
  ultimately have hi: "\<bar>x\<bar> < pow2 (- k + 1)"
    using pos by (simp add: pow2_neg)
  show ?thesis
    using False lo hi by (simp add: ilog2_def k_def m_def y_def)
qed

lemma pow2_pos: "0 < pow2 k"
  by (simp add: pow2_def)

lemma round64_nearest:
  assumes "round64 x = Num r"
  shows "\<bar>r - x\<bar> \<le> pow2 (max (ilog2 x) (- 1022) - 52) / 2"
proof -
  define ulp where "ulp = pow2 (max (ilog2 x) (- 1022) - 52)"
  define n where "n = round_half_even (x / ulp)"
  have ulp: "0 < ulp"
    by (simp add: ulp_def pow2_pos)
  from assms have r: "r = of_int n * ulp"
    by (auto simp: round64_def Let_def ulp_def n_def split: if_splits)
  have "\<bar>of_int n - x / ulp\<bar> \<le> 1 / 2"
    unfolding n_def by (rule round_half_even_nearest)
  then have "\<bar>of_int n - x / ulp\<bar> * ulp \<le> 1 / 2 * ulp"
    using ulp by (simp only: mult_le_cancel_right_pos)
  moreover have "\<bar>of_int n - x / ulp\<bar> * ulp = \<bar>of_int n * ulp - x\<bar>"
  proof -
    have "\<bar>of_int n - x / ulp\<bar> * ulp = \<bar>(of_int n - x / ulp) * ulp\<bar>"
      using ulp by (simp add: abs_mult)
    also have "(of_int n - x / ulp) * ulp = of_int n * ulp - x"
      using ulp by (simp add: left_diff_distrib)
    finally show ?thesis .
  qed
  ultimately show ?thesis
    by (simp add: r ulp_def)
qed

section \<open>Evaluating numbers\<close>

lemma floor_rat_numeral_div: "\<lfloor>numeral a / (numeral b :: rat)\<rfloor> = numeral a div numeral b"
  by (metis floor_divide_of_int_eq of_int_numeral)

lemma ceiling_rat_numeral_div:
  "\<lceil>numeral a / (numeral b :: rat)\<rceil> = - (- numeral a div numeral b)"
  by (metis ceiling_def floor_divide_of_int_eq minus_divide_left of_int_minus of_int_numeral)

lemma bitlen_One: "bitlen 1 = 1"
  by (subst compute_bitlen) simp

lemma bitlen_Bit0: "bitlen (numeral (Num.Bit0 n)) = bitlen (numeral n) + 1"
  by (subst compute_bitlen) simp

lemma bitlen_Bit1: "bitlen (numeral (Num.Bit1 n)) = bitlen (numeral n) + 1"
  by (subst compute_bitlen) simp

lemmas round64_eval = round64_def ilog2_def pow2_def round_half_even_def Let_def
  bitlen_One bitlen_Bit0 bitlen_Bit1 floor_rat_numeral_div ceiling_rat_numeral_div

lemmas arith_eval = fsub_def fadd_def fmul_def fdiv_def zero_def infinity_def round64_eval

lemma digits_less_10: "n < 10 \<Longrightarrow> digits n = [digit n]"
  by (simp add: digits.simps)

lemma digits_ge_10: "10 \<le> n \<Longrightarrow> digits n = digits (n div 10) @ [digit (n mod 10)]"
  by (subst digits.simps) simp

lemmas toFixed_eval = toFixed_def fixed_digits_def digits_less_10 digits_ge_10 digit_def
  floor_rat_numeral_div Let_def

lemma binanceFeeRate_value: "round64 (1 / 1000) = Num (1152921504606847 / 1152921504606846976)"
  by (simp add: round64_eval cong: let_weak_cong)

lemma solanaFeeRate_value: "round64 (3 / 1000) = Num (3458764513820541 / 1152921504606846976)"
  by (simp add: round64_eval cong: let_weak_cong)

lemma binance_after_fee:
  "fsub (Num 1) (Num (1152921504606847 / 1152921504606846976))
   = Num (8998192055486251 / 9007199254740992)"
  by (simp add: arith_eval cong: let_weak_cong)

lemma solana_after_fee:
  "fsub (Num 1) (Num (3458764513820541 / 1152921504606846976))
   = Num (8980177656976769 / 9007199254740992)"
  by (simp add: arith_eval cong: let_weak_cong)

section \<open>The spread of the worked example\<close>

lemma example_binancePriceAfterFees:
  "fmul (Num 50000) (Num (8998192055486251 / 9007199254740992)) = Num 49950"
  by (simp add: arith_eval cong: let_weak_cong)

lemma example_serumPriceAfterFees:
  "fmul (Num 49900) (Num (8980177656976769 / 9007199254740992))
   = Num (3418814583459021 / 68719476736)"
  by (simp add: arith_eval cong: let_weak_cong)

lemma example_priceDifference:
  "fsub (Num 49950) (Num (3418814583459021 / 68719476736)) = Num (13723279504179 / 68719476736)"
  by (simp add: arith_eval cong: let_weak_cong)

lemma example_quotient:
  "fdiv (Num (13723279504179 / 68719476736)) (Num (3418814583459021 / 68719476736))
   = Num (2313940061366303 / 576460752303423488)"
  by (simp add: arith_eval cong: let_weak_cong)

lemma example_percent:
  "fmul (Num (2313940061366303 / 576460752303423488)) (Num 100)
   = Num (7231062691769697 / 18014398509481984)"
  by (simp add: arith_eval cong: let_weak_cong)

lemma example_toFixed: "toFixed 2 (Num (7231062691769697 / 18014398509481984)) = ''0.40''"
  by (simp add: toFixed_eval)

lemma literal_199_7: "round64 (1997 / 10) = Num (3513159553069875 / 17592186044416)"
  by (simp add: round64_eval cong: let_weak_cong)

lemma literal_49750_3: "round64 (497503 / 10) = Num (3418814583459021 / 68719476736)"
  by (simp add: round64_eval cong: let_weak_cong)

lemmas example_eval = binanceFeeRate_value solanaFeeRate_value binance_after_fee solana_after_fee
  example_binancePriceAfterFees example_serumPriceAfterFees example_priceDifference
  example_quotient example_percent example_toFixed

text \<open>
  C8, as the code has it. At an exchange price of 50000 and an on-chain price of 49900, under the
  fee rates the server is constructed with, the prices after fees are the doubles 49950 and
  49750.3. Their difference in binary64 is 13723279504179 / 68719476736, which prints as
  199.6999999999971: it is within \<open>10^-11\<close> of 199.7 and is not the double 199.7. The
  percentage prints as \<^verbatim>\<open>0.40\<close>.
\<close>

theorem example_spread:
  "fmul (Num 50000) (fsub (Num 1) (binanceFeeRate (constructor dates))) = Num 49950
   \<and> fmul (Num 49900) (fsub (Num 1) (solanaFeeRate (constructor dates))) = round64 (497503 / 10)
   \<and> priceDifference (fst (calculatePriceDifference p (Num 50000) (Num 49900) (constructor dates)))
       = Num (13723279504179 / 68719476736)
   \<and> \<bar>val (priceDifference (fst (calculatePriceDifference p (Num 50000) (Num 49900)
           (constructor dates)))) - 1997 / 10\<bar> < 1 / 10 ^ 11
   \<and> percentDifference (fst (calculatePriceDifference p (Num 50000) (Num 49900)
         (constructor dates))) = ''0.40''"
  by (simp add: calculatePriceDifference_def constructor_def example_eval literal_49750_3)

theorem example_spread_is_not_199_7:
  "priceDifference (fst (calculatePriceDifference ''BTC/USDC'' (Num 50000) (Num 49900)
      (constructor example_clock))) \<noteq> round64 (1997 / 10)
   \<and> priceDifference (fst (calculatePriceDifference ''BTC/USDC'' (Num 50000) (Num 49900)
      (constructor example_clock))) \<noteq> Num (1997 / 10)"
  by (simp add: calculatePriceDifference_def constructor_def example_eval literal_199_7)

section \<open>The spread formula\<close>













section \<open>The records of a broadcast cycle\<close>

lemma calculatePriceDifference_snd:
  "snd (calculatePriceDifference p b a s) = s\<lparr>date_reads := Suc (date_reads s)\<rparr>"
  by (simp add: calculatePriceDifference_def Let_def)

lemma calculatePriceDifference_pair: "pair (fst (calculatePriceDifference p b a s)) = p"
  by (simp add: calculatePriceDifference_def Let_def)

lemma map_pairs_snd:
  "snd (map_pairs ps s) = s\<lparr>date_reads := date_reads (snd (map_pairs ps s))\<rparr>"
proof (induction ps arbitrary: s)
  case Nil
  then show ?case by simp
next
  case (Cons p ps)
  have step: "snd (map_pairs ps (s\<lparr>date_reads := n\<rparr>))
              = s\<lparr>date_reads := date_reads (snd (map_pairs ps (s\<lparr>date_reads := n\<rparr>)))\<rparr>" for n
    using Cons.IH [of "s\<lparr>date_reads := n\<rparr>"] by simp
  show ?case
    using Cons.IH [of s] step [of "Suc (date_reads s)"]
    by (auto simp: Let_def calculatePriceDifference_def split: option.splits prod.splits)
qed

lemma map_pairs_Some:
  "Some d \<in> set (fst (map_pairs ps s)) \<Longrightarrow>
   \<exists>p \<in> set ps. pair d = name p
     \<and> truthy_number (lastBinancePrices s (name p)) \<and> truthy_number (lastSerumPrices s (name p))"
proof (induction ps arbitrary: s)
  case Nil
  then show ?case by simp
next
  case (Cons p ps)
  show ?case
  proof (cases "truthy_number (lastBinancePrices s (name p)) \<and> truthy_number (lastSerumPrices s (name p))")
    case True
    then obtain b a where ba: "lastBinancePrices s (name p) = Some b" "truthy b"
        "lastSerumPrices s (name p) = Some a" "truthy a"
      by (cases "lastBinancePrices s (name p)"; cases "lastSerumPrices s (name p)") auto
    let ?s1 = "s\<lparr>date_reads := Suc (date_reads s)\<rparr>"
    from Cons.prems ba have "d = fst (calculatePriceDifference (name p) b a s)
        \<or> Some d \<in> set (fst (map_pairs ps ?s1))"
      by (auto simp: Let_def calculatePriceDifference_def split: prod.splits)
    then show ?thesis
    proof
      assume "d = fst (calculatePriceDifference (name p) b a s)"
      then show ?thesis using True by (simp add: calculatePriceDifference_pair)
    next
      assume "Some d \<in> set (fst (map_pairs ps ?s1))"
      from Cons.IH [OF this] show ?thesis by auto
    qed
  next
    case False
    with Cons.prems have "Some d \<in> set (fst (map_pairs ps s))"
      by (auto simp: Let_def split: option.splits prod.splits if_splits)
    from Cons.IH [OF this] show ?thesis by auto
  qed
qed

lemma getAllPairData_records:
  assumes "d \<in> set (fst (getAllPairData s))"
  shows "\<exists>p \<in> set TRADING_PAIRS. pair d = name p
     \<and> truthy_number (lastBinancePrices s (pair d)) \<and> truthy_number (lastSerumPrices s (pair d))"
proof -
  from assms have "Some d \<in> set (fst (map_pairs TRADING_PAIRS s))"
    by (auto simp: getAllPairData_def split: prod.splits)
  from map_pairs_Some [OF this] show ?thesis by auto
qed

lemma truthy_number_Some: "truthy_number x \<Longrightarrow> \<exists>n. x = Some n \<and> truthy n"
  by (cases x) auto

lemma getAllPairData_snd:
  "snd (getAllPairData s) = s\<lparr>date_reads := date_reads (snd (getAllPairData s))\<rparr>"
  using map_pairs_snd [of TRADING_PAIRS s]
  by (cases "map_pairs TRADING_PAIRS s") (simp add: getAllPairData_def)

lemma deliver_readyState: "readyState (deliver ws m s) = readyState s"
  by (simp add: deliver_def)

lemma send_each_sent:
  "sent (send_each cs m s) ws
   = sent s ws @ replicate (length (filter (\<lambda>c. c = ws \<and> readyState s c = OPEN) cs)) m"
proof (induction cs arbitrary: s)
  case Nil
  then show ?case by simp
next
  case (Cons c cs)
  show ?case
    by (simp add: Cons.IH deliver_readyState) (simp add: deliver_def replicate_app_Cons_same)
qed

lemma send_each_other:
  "send_each cs m s = s\<lparr>sent := sent (send_each cs m s)\<rparr>"
proof (induction cs arbitrary: s)
  case Nil
  then show ?case by simp
next
  case (Cons c cs)
  show ?case
    using Cons.IH [of "deliver c m s"] Cons.IH [of s]
    by (auto simp: deliver_def)
qed

lemma count_distinct:
  "distinct cs \<Longrightarrow> length (filter (\<lambda>c. c = ws \<and> P c) cs) = (if ws \<in> set cs \<and> P ws then 1 else 0)"
  by (induction cs) auto

lemma broadcastPrices_sent:
  "sent (broadcastPrices s) ws
   = sent s ws
     @ (if fst (getAllPairData s) \<noteq> []
        then replicate (length (filter (\<lambda>c. c = ws \<and> readyState s c = OPEN) (clients s)))
               (AllMessage (fst (getAllPairData s)))
        else [])"
proof -
  obtain ds s1 where g: "getAllPairData s = (ds, s1)" by (cases "getAllPairData s")
  then have s1: "s1 = s\<lparr>date_reads := date_reads s1\<rparr>"
    using getAllPairData_snd [of s] by simp
  have f: "sent s1 = sent s" "readyState s1 = readyState s" "clients s1 = clients s"
    by (subst s1, simp)+
  show ?thesis
    by (simp add: broadcastPrices_def g send_each_sent f)
qed

lemma broadcastPrices_other:
  "broadcastPrices s
   = s\<lparr>sent := sent (broadcastPrices s), date_reads := date_reads (broadcastPrices s)\<rparr>"
proof -
  obtain ds s1 where g: "getAllPairData s = (ds, s1)" by (cases "getAllPairData s")
  define n where "n = date_reads s1"
  have s1: "s1 = s\<lparr>date_reads := n\<rparr>"
    using getAllPairData_snd [of s] g by (simp add: n_def)
  define x where "x = sent (send_each (clients s1) (AllMessage ds) s1)"
  have "send_each (clients s1) (AllMessage ds) s1 = s1\<lparr>sent := x\<rparr>"
    unfolding x_def by (rule send_each_other)
  then have e: "send_each (clients s1) (AllMessage ds) s1 = s\<lparr>sent := x, date_reads := n\<rparr>"
    by (simp add: s1)
  show ?thesis
  proof (cases "ds = []")
    case True
    then have "broadcastPrices s = s\<lparr>date_reads := n\<rparr>"
      by (simp add: broadcastPrices_def g s1)
    then show ?thesis by simp
  next
    case False
    then have "broadcastPrices s = s\<lparr>sent := x, date_reads := n\<rparr>"
      by (simp add: broadcastPrices_def g e)
    then show ?thesis by simp
  qed
qed

lemma broadcastPrices_lastBinancePrices: "lastBinancePrices (broadcastPrices s) = lastBinancePrices s"
  by (subst broadcastPrices_other) simp

lemma broadcastPrices_lastSerumPrices: "lastSerumPrices (broadcastPrices s) = lastSerumPrices s"
  by (subst broadcastPrices_other) simp

section \<open>Running the examples\<close>

lemma example_midPrice: "fdiv (fadd (Num 49899) (Num 49901)) (Num 2) = Num 49900"
  by (simp add: arith_eval cong: let_weak_cong)

lemma failing_midPrice: "fdiv (fadd (Num 2999) (Num 3001)) (Num 2) = Num 3000"
  by (simp add: arith_eval cong: let_weak_cong)

lemma parseFloat_50000: "parseFloat_string ''50000'' = Num 50000"
  by (simp add: parseFloat_string_def is_whitespace_def is_digit_def decimal_value_def
      digit_value_def exponent_part_def pow10_def round64_eval cong: let_weak_cong)

lemma parseFloat_3000: "parseFloat_string ''3000'' = Num 3000"
  by (simp add: parseFloat_string_def is_whitespace_def is_digit_def decimal_value_def
      digit_value_def exponent_part_def pow10_def round64_eval cong: let_weak_cong)

lemma parseFloat_no_break_space: "parseFloat_string [CHR 0xA0, CHR ''5''] = Num 5"
  by (simp add: parseFloat_string_def is_whitespace_def is_digit_def decimal_value_def
      digit_value_def exponent_part_def pow10_def round64_eval cong: let_weak_cong)

lemma parseFloat_toString_property:
  "parseFloat (JObj [(''toString'', JStr ''5'')]) = Inl TypeError
   \<and> parseFloat (JArr [JStr ''5'', JObj [(''toString'', JNull)]]) = Inl TypeError
   \<and> parseFloat (JArr [JStr ''7.5'', JNull]) = Inr (parseFloat_string ''7.5'')"
  by (simp add: parseFloat_def)

lemma parseFloat_abc: "parseFloat_string ''abc'' = NaN"
  by (simp add: parseFloat_string_def is_whitespace_def is_digit_def Let_def)

lemma parseFloat_minus_1: "parseFloat_string ''-1'' = Num (- 1)"
  by (simp add: parseFloat_string_def is_whitespace_def is_digit_def decimal_value_def
      digit_value_def exponent_part_def pow10_def round64_eval cong: let_weak_cong)

lemma parseFloat_0: "parseFloat_string ''0'' = Num 0"
  by (simp add: parseFloat_string_def is_whitespace_def is_digit_def decimal_value_def
      digit_value_def exponent_part_def pow10_def zero_def Let_def)

lemma started_state:
  "started =
   \<lparr>solanaConnection = Some ''https://api.mainnet-beta.solana.com'',
      markets =
        [(''BTC/USDC'', ''CVfYa8RGXnuDBeGmniCcdkBwoLqVxh92xB1JqgRQx3F''),
         (''ETH/USDC'', ''H5uzEytiByuXt964KampmuNCurNDwkVVypkym75J2DQW''),
         (''SOL/USDC'', ''7xMDbYTCqQEcK2aM9LbetGtNFJpzKdfXzLL5juaLh4GJ'')],
      binanceWs = Some 0, clients = [], lastBinancePrices = Map.empty,
      lastSerumPrices =
        [''BTC/USDC'' \<mapsto> Num 49900, ''ETH/USDC'' \<mapsto> Num 49900, ''SOL/USDC'' \<mapsto> Num 49900],
      binanceFeeRate = round64 (1 / 1000),
      solanaFeeRate = round64 (3 / 1000),
      profitabilityThreshold = round64 (5 / 1000), sockets = 1,
      binance_sockets = [0], readyState = (\<lambda>ws. CLOSED)(0 := CONNECTING),
      sent = (\<lambda>ws. [])(0 := []), now = 0,
      pending = [Interval 1000 1000 UpdateAllSerumPrices],
      console =
        [ConsoleLog ''Loaded market for BTC/USDC'',
         ConsoleLog ''Loaded market for ETH/USDC'',
         ConsoleLog ''Loaded market for SOL/USDC'',
         ConsoleLog ''Serum WebSocket subscriptions established'',
         ConsoleLog ''WebSocket server running on ws://localhost:3001''],
      clock = example_clock, date_reads = 0\<rparr>"
  by (simp add: started_def initialize_def constructor_def TRADING_PAIRS_def example_load_def
      example_books_def console_log_def console_error_def startBinanceWebSockets_def
      startSerumWebSockets_def updateAllSerumPrices_def update_price_def example_midPrice
      truthy_def setInterval_def SOLANA_CLUSTER_def broadcastPrices_def getAllPairData_def
      Let_def)

lemmas run_eval = on_connection_def on_client_message_def on_client_close_def
  on_binance_open_def on_binance_error_def on_binance_close_def on_binance_message_def
  set_state_def console_log_def console_error_def JSON_parse_def handleSubscription_def
  sendSinglePairData_def sendAllPairData_def ws_send_def deliver_def broadcastPrices_def
  getAllPairData_def TRADING_PAIRS_def calculatePriceDifference_def truthy_def
  toLowerCase_def upper_case_def lower_case_def parseFloat_def ticker_def ticker_message_def
  subscribe_def setTimeout_def Let_def

lemma one_sided_records: "map pair (fst (getAllPairData one_sided)) = [''ETH/USDC'']"
  by (simp add: one_sided_def constructor_def getAllPairData_def TRADING_PAIRS_def
      calculatePriceDifference_def truthy_def Let_def)

section \<open>Who receives a broadcast\<close>

text \<open>
  C1, as the code has it. The server keeps no filter of any client: a \<^verbatim>\<open>SUBSCRIBE\<close> is answered
  once, on the spot, and leaves nothing behind. A broadcast cycle with at least one record sends
  the one batch of all records to every registered client whose socket is open, and to nobody
  else; a cycle with no record sends nothing.
\<close>

theorem broadcast_to_every_open_client:
  assumes "distinct (clients s)"
  shows "sent (broadcastPrices s) ws
   = sent s ws
     @ (if ws \<in> set (clients s) \<and> readyState s ws = OPEN \<and> fst (getAllPairData s) \<noteq> []
        then [AllMessage (fst (getAllPairData s))] else [])"
  using assms by (simp add: broadcastPrices_sent count_distinct)

theorem broadcast_to_every_open_client_witness:
  "distinct (clients one_sided)
   \<and> sent (broadcastPrices one_sided) 0 = [AllMessage (fst (getAllPairData one_sided))]
   \<and> sent (broadcastPrices one_sided) 1 = []
   \<and> map pair (fst (getAllPairData one_sided)) = [''ETH/USDC'']"
proof -
  have d: "distinct (clients one_sided)"
    by (simp add: one_sided_def)
  have "fst (getAllPairData one_sided) \<noteq> []"
    using one_sided_records by auto
  then show ?thesis
    using broadcast_to_every_open_client [OF d, of 0] broadcast_to_every_open_client [OF d, of 1]
      one_sided_records
    by (simp add: one_sided_def constructor_def)
qed

text \<open>
  After start-up, client 1 connects and subscribes to nothing, client 2 connects and subscribes
  to \<^verbatim>\<open>difference.BTC/USDC\<close> alone, and the exchange reports BTC/USDC and then ETH/USDC. Both
  clients are sent both batches, the second with the record of ETH/USDC in it.
\<close>

theorem broadcast_ignores_subscriptions:
  "map_option (\<lambda>s. (map pairs_of (sent s 1), map pairs_of (sent s 2)))
     (run [Connection, Connection, ClientMessage 2 (subscribe [''difference.BTC/USDC'']),
           BinanceOpen 0, BinanceMessage 0 (ticker ''btcusdc@ticker'' ''50000''),
           BinanceMessage 0 (ticker ''ethusdc@ticker'' ''3000'')] started)
   = Some ([[''BTC/USDC''], [''BTC/USDC'', ''ETH/USDC'']],
           [[''BTC/USDC''], [''BTC/USDC'', ''ETH/USDC'']])"
  by (simp add: started_state run_eval parseFloat_50000 parseFloat_3000)

section \<open>Pairs with a price missing\<close>

text \<open>
  C3. A pair with no price on either side of the store is in no record of
  \<^const>\<open>getAllPairData\<close>, every record is of a pair with a price on both sides, and a
  broadcast cycle sends nothing but the batch of these records.
\<close>

theorem one_sided_pair_omitted:
  "(lastBinancePrices s p = None \<or> lastSerumPrices s p = None \<longrightarrow>
      p \<notin> pair ` set (fst (getAllPairData s)))
   \<and> (\<forall>d \<in> set (fst (getAllPairData s)).
        \<exists>b a. lastBinancePrices s (pair d) = Some b \<and> lastSerumPrices s (pair d) = Some a)
   \<and> (\<forall>ws. \<forall>m \<in> set (sent (broadcastPrices s) ws).
        m \<in> set (sent s ws) \<or> m = AllMessage (fst (getAllPairData s)))"
proof -
  have both: "\<exists>b a. lastBinancePrices s (pair d) = Some b \<and> lastSerumPrices s (pair d) = Some a"
    if "d \<in> set (fst (getAllPairData s))" for d
    using getAllPairData_records [OF that] by (auto dest: truthy_number_Some)
  then have "p \<notin> pair ` set (fst (getAllPairData s))"
    if "lastBinancePrices s p = None \<or> lastSerumPrices s p = None"
    using that by force
  moreover have "m \<in> set (sent s ws) \<or> m = AllMessage (fst (getAllPairData s))"
    if "m \<in> set (sent (broadcastPrices s) ws)" for ws m
    using that by (auto simp: broadcastPrices_sent split: if_splits)
  ultimately show ?thesis using both by blast
qed

theorem one_sided_pair_omitted_witness:
  "lastBinancePrices one_sided ''BTC/USDC'' = Some (Num 50000)
   \<and> lastSerumPrices one_sided ''BTC/USDC'' = None
   \<and> ''BTC/USDC'' \<notin> pair ` set (fst (getAllPairData one_sided))
   \<and> map pair (fst (getAllPairData one_sided)) = [''ETH/USDC'']
   \<and> sent (broadcastPrices one_sided) 0 = [AllMessage (fst (getAllPairData one_sided))]"
proof -
  have "lastSerumPrices one_sided ''BTC/USDC'' = None"
    by (simp add: one_sided_def)
  with one_sided_pair_omitted [of one_sided "''BTC/USDC''"]
  have "''BTC/USDC'' \<notin> pair ` set (fst (getAllPairData one_sided))"
    by blast
  moreover have "fst (getAllPairData one_sided) \<noteq> []"
    using one_sided_records by auto
  then have "sent (broadcastPrices one_sided) 0 = [AllMessage (fst (getAllPairData one_sided))]"
    by (simp add: broadcastPrices_sent) (simp add: one_sided_def constructor_def)
  ultimately show ?thesis
    by (simp add: one_sided_records) (simp add: one_sided_def)
qed

text \<open>
  C10. A stored price of \<open>0\<close> (or \<open>-0\<close>) on either side counts as no price: the pair is in no
  record, and a query for that one pair sends nothing and leaves the server as it was.
\<close>

theorem zero_price_is_absent:
  assumes "lastBinancePrices s p = Some z \<or> lastSerumPrices s p = Some z" "is_zero z"
  shows "p \<notin> pair ` set (fst (getAllPairData s)) \<and> sendSinglePairData ws (Some p) s = (None, s)"
proof -
  from assms have nt: "\<not> (truthy_number (lastBinancePrices s p) \<and> truthy_number (lastSerumPrices s p))"
    by (auto simp: truthy_def)
  have "p \<notin> pair ` set (fst (getAllPairData s))"
  proof
    assume "p \<in> pair ` set (fst (getAllPairData s))"
    then obtain d where "d \<in> set (fst (getAllPairData s))" "pair d = p" by auto
    with getAllPairData_records [of d s] nt show False by auto
  qed
  moreover from nt have "sendSinglePairData ws (Some p) s = (None, s)"
    by (auto simp: sendSinglePairData_def split: option.splits)
  ultimately show ?thesis by simp
qed

theorem zero_price_is_absent_witness:
  "lastBinancePrices zero_priced ''BTC/USDC'' = Some (Num 0)
   \<and> lastSerumPrices zero_priced ''BTC/USDC'' = Some (Num 49900)
   \<and> is_zero (Num 0)
   \<and> ''BTC/USDC'' \<notin> pair ` set (fst (getAllPairData zero_priced))
   \<and> sendSinglePairData 0 (Some ''BTC/USDC'') zero_priced = (None, zero_priced)"
proof -
  have z: "lastBinancePrices zero_priced ''BTC/USDC'' = Some (Num 0)
           \<or> lastSerumPrices zero_priced ''BTC/USDC'' = Some (Num 0)"
    by (simp add: zero_priced_def)
  show ?thesis
    using zero_price_is_absent [OF z, of 0] by (simp add: zero_priced_def)
qed

section \<open>Frames that are not what they should be\<close>

text \<open>
  C7. A client frame that is not JSON adds one entry to the error log and changes nothing
  else: the client stays registered, its socket stays as it is, nothing is sent, and no
  exception leaves the listener.
\<close>

theorem malformed_client_message_is_logged:
  "on_client_message ws None s
     = s\<lparr>console := console s @ [ConsoleError ''Error parsing message:'' SyntaxError]\<rparr>
   \<and> clients (on_client_message ws None s) = clients s
   \<and> readyState (on_client_message ws None s) = readyState s
   \<and> sent (on_client_message ws None s) = sent s
   \<and> step (ClientMessage ws None) s = Inr (on_client_message ws None s)"
  by (simp add: on_client_message_def JSON_parse_def console_error_def)

text \<open>
  C4 fails on the code. The listener of the exchange socket parses with no \<^verbatim>\<open>try\<close> around it:
  a frame that is not JSON throws a SyntaxError out of the listener, and so does a TypeError
  on \<^verbatim>\<open>null\<close> and on a frame with \<^verbatim>\<open>data\<close> and no \<^verbatim>\<open>stream\<close>. The process ends there, where the
  same frame from a client is logged and survived.
\<close>

theorem exchange_message_throws:
  "on_binance_message None started = Inl SyntaxError
   \<and> on_binance_message (Some JNull) started = Inl TypeError
   \<and> on_binance_message (Some (JObj [(''data'', JObj [(''c'', JStr ''50000'')])])) started
       = Inl TypeError
   \<and> run [BinanceOpen 0, BinanceMessage 0 None] started = None
   \<and> (\<exists>s. run [Connection, ClientMessage 1 None] started = Some s)"
  by (simp add: started_state run_eval)

section \<open>What the price store accepts\<close>

text \<open>
  C5, as the code has it. No setter checks a price. On the exchange side, once the stream
  resolves to a pair and \<^verbatim>\<open>parseFloat(ticker.c)\<close> returns, the number it returns is stored
  whatever it is, and nothing is logged. On the on-chain side the mid price is stored when the
  best bid and the best ask are both truthy; when either is \<^verbatim>\<open>undefined\<close>, \<open>0\<close> or NaN the
  server is left as it was; nothing is logged either way.
\<close>

theorem exchange_price_stored_unchecked:
  "(find_pair message' TRADING_PAIRS = Inr (Some p) \<and> get_prop message' ''data'' = Inr t
      \<and> js_truthy t \<and> get_prop t ''c'' = Inr c \<and> parseFloat c = Inr price \<longrightarrow>
    (\<exists>s1. on_binance_message (Some message') s = Inr s1
       \<and> lastBinancePrices s1 = (lastBinancePrices s)(name p \<mapsto> price)
       \<and> console s1 = console s))
   \<and> lastSerumPrices (update_price pairName (Inr (bid, ask)) s)
       = (if truthy_number bid \<and> truthy_number ask
          then (lastSerumPrices s)(pairName \<mapsto> fdiv (fadd (the bid) (the ask)) (Num 2))
          else lastSerumPrices s)
   \<and> (\<not> (truthy_number bid \<and> truthy_number ask) \<longrightarrow>
        update_price pairName (Inr (bid, ask)) s = s)
   \<and> console (update_price pairName (Inr (bid, ask)) s) = console s"
proof -
  have "console (broadcastPrices s') = console s'" for s'
    by (subst broadcastPrices_other) simp
  then have exchange: "\<exists>s1. on_binance_message (Some message') s = Inr s1
       \<and> lastBinancePrices s1 = (lastBinancePrices s)(name p \<mapsto> price)
       \<and> console s1 = console s"
    if "find_pair message' TRADING_PAIRS = Inr (Some p)" "get_prop message' ''data'' = Inr t"
      "js_truthy t" "get_prop t ''c'' = Inr c" "parseFloat c = Inr price"
    using that
    by (simp add: on_binance_message_def JSON_parse_def broadcastPrices_lastBinancePrices)
  have chain: "lastSerumPrices (update_price pairName (Inr (bid, ask)) s)
       = (if truthy_number bid \<and> truthy_number ask
          then (lastSerumPrices s)(pairName \<mapsto> fdiv (fadd (the bid) (the ask)) (Num 2))
          else lastSerumPrices s)
     \<and> (\<not> (truthy_number bid \<and> truthy_number ask) \<longrightarrow>
          update_price pairName (Inr (bid, ask)) s = s)
     \<and> console (update_price pairName (Inr (bid, ask)) s) = console s"
    by (cases bid; cases ask) (simp_all add: update_price_def Let_def)
  show ?thesis
    using exchange chain by blast
qed

theorem exchange_price_stored_unchecked_witness:
  "find_pair (ticker_message ''btcusdc@ticker'' ''abc'') TRADING_PAIRS = Inr (Some (hd TRADING_PAIRS))
   \<and> get_prop (ticker_message ''btcusdc@ticker'' ''abc'') ''data'' = Inr (JObj [(''c'', JStr ''abc'')])
   \<and> js_truthy (JObj [(''c'', JStr ''abc'')])
   \<and> get_prop (JObj [(''c'', JStr ''abc'')]) ''c'' = Inr (JStr ''abc'')
   \<and> parseFloat (JStr ''abc'') = Inr NaN
   \<and> (\<exists>s1. on_binance_message (ticker ''btcusdc@ticker'' ''abc'') started = Inr s1
         \<and> lastBinancePrices s1 = (lastBinancePrices started)(''BTC/USDC'' \<mapsto> NaN)
         \<and> console s1 = console started)
   \<and> \<not> (truthy_number (Some (Num 150)) \<and> truthy_number None)
   \<and> update_price ''SOL/USDC'' (Inr (Some (Num 150), None)) started = started"
proof -
  have h: "find_pair (ticker_message ''btcusdc@ticker'' ''abc'') TRADING_PAIRS = Inr (Some (hd TRADING_PAIRS))
   \<and> get_prop (ticker_message ''btcusdc@ticker'' ''abc'') ''data'' = Inr (JObj [(''c'', JStr ''abc'')])
   \<and> js_truthy (JObj [(''c'', JStr ''abc'')])
   \<and> get_prop (JObj [(''c'', JStr ''abc'')]) ''c'' = Inr (JStr ''abc'')
   \<and> parseFloat (JStr ''abc'') = Inr NaN"
    by (simp add: ticker_message_def TRADING_PAIRS_def toLowerCase_def upper_case_def
        lower_case_def parseFloat_def parseFloat_abc)
  have n: "\<not> (truthy_number (Some (Num 150)) \<and> truthy_number None)"
    by simp
  show ?thesis
    using h n exchange_price_stored_unchecked [of "ticker_message ''btcusdc@ticker'' ''abc''"
        "hd TRADING_PAIRS" "JObj [(''c'', JStr ''abc'')]" "JStr ''abc''" NaN started
        "''SOL/USDC''" "Some (Num 150)" None]
    by (simp add: ticker_def TRADING_PAIRS_def)
qed

text \<open>
  The tickers \<^verbatim>\<open>abc\<close>, \<^verbatim>\<open>-1\<close> and \<^verbatim>\<open>0\<close> put NaN, \<open>-1\<close> and \<open>0\<close> into the store, and the log
  holds nothing about them.
\<close>

theorem invalid_exchange_prices_are_stored:
  "map_option
     (\<lambda>s. (lastBinancePrices s ''BTC/USDC'', lastBinancePrices s ''ETH/USDC'',
           lastBinancePrices s ''SOL/USDC'', console s = console started @ [ConsoleLog ''Connected to Binance WebSocket'']))
     (run [BinanceOpen 0, BinanceMessage 0 (ticker ''btcusdc@ticker'' ''abc''),
           BinanceMessage 0 (ticker ''ethusdc@ticker'' ''-1''),
           BinanceMessage 0 (ticker ''solusdc@ticker'' ''0'')] started)
   = Some (Some NaN, Some (Num (- 1)), Some (Num 0), True)"
  by (simp add: started_state run_eval parseFloat_abc parseFloat_minus_1 parseFloat_0)

section \<open>A poll with failing fetches\<close>

lemma update_price_lastSerumPrices:
  "lastSerumPrices (update_price n b s) q =
     (case b of
        Inr (Some bid, Some ask) \<Rightarrow>
          if q = n \<and> truthy bid \<and> truthy ask then Some (fdiv (fadd bid ask) (Num 2))
          else lastSerumPrices s q
      | _ \<Rightarrow> lastSerumPrices s q)"
  by (auto simp: update_price_def console_error_def Let_def split: sum.splits option.splits)

lemma update_prices_lastSerumPrices:
  "lastSerumPrices (update_prices ms fetch s) q =
     (case fetch q of
        Inr (Some bid, Some ask) \<Rightarrow>
          if q \<in> fst ` set ms \<and> truthy bid \<and> truthy ask then Some (fdiv (fadd bid ask) (Num 2))
          else lastSerumPrices s q
      | _ \<Rightarrow> lastSerumPrices s q)"
proof (induction ms arbitrary: s)
  case Nil
  then show ?case by (simp split: sum.splits option.splits)
next
  case (Cons m ms)
  obtain n a where m: "m = (n, a)" by (cases m)
  show ?case
    unfolding m
    by (simp add: Cons.IH update_price_lastSerumPrices split: sum.splits option.splits)
qed

text \<open>
  C6. When the fetch for a pair throws, or its book has no bid or no ask, the on-chain price
  of that pair after the poll is the one before it; and every other pair of \<open>markets\<close> whose
  fetch brings a truthy bid and ask has its new mid price after the same poll.
\<close>

theorem failed_fetch_keeps_price:
  assumes "fetch p = Inl e \<or> (\<exists>ask. fetch p = Inr (None, ask)) \<or> (\<exists>bid. fetch p = Inr (bid, None))"
  shows "lastSerumPrices (updateAllSerumPrices fetch s) p = lastSerumPrices s p
    \<and> (\<forall>q bid ask. solanaConnection s \<noteq> None \<and> q \<in> fst ` set (markets s)
          \<and> fetch q = Inr (Some bid, Some ask) \<and> truthy bid \<and> truthy ask \<longrightarrow>
        lastSerumPrices (updateAllSerumPrices fetch s) q = Some (fdiv (fadd bid ask) (Num 2)))"
  using assms
  by (auto simp: updateAllSerumPrices_def broadcastPrices_lastSerumPrices
      update_prices_lastSerumPrices split: sum.splits option.splits)

theorem failed_fetch_keeps_price_witness:
  "failing_books ''BTC/USDC'' = Inl (Thrown ''429 Too Many Requests'')
   \<and> failing_books ''SOL/USDC'' = Inr (Some (Num 150), None)
   \<and> lastSerumPrices (updateAllSerumPrices failing_books started) ''BTC/USDC'' = Some (Num 49900)
   \<and> lastSerumPrices (updateAllSerumPrices failing_books started) ''SOL/USDC'' = Some (Num 49900)
   \<and> lastSerumPrices (updateAllSerumPrices failing_books started) ''ETH/USDC'' = Some (Num 3000)"
proof -
  have btc: "failing_books ''BTC/USDC'' = Inl (Thrown ''429 Too Many Requests'')"
    and sol: "failing_books ''SOL/USDC'' = Inr (Some (Num 150), None)"
    and eth: "failing_books ''ETH/USDC'' = Inr (Some (Num 2999), Some (Num 3001))"
    by (simp_all add: failing_books_def)
  have "lastSerumPrices (updateAllSerumPrices failing_books started) ''BTC/USDC''
        = lastSerumPrices started ''BTC/USDC''
      \<and> lastSerumPrices (updateAllSerumPrices failing_books started) ''ETH/USDC''
        = Some (fdiv (fadd (Num 2999) (Num 3001)) (Num 2))"
    using failed_fetch_keeps_price [of failing_books "''BTC/USDC''"
        "Thrown ''429 Too Many Requests''" started] btc eth
    by (simp add: started_state truthy_def)
  moreover have "lastSerumPrices (updateAllSerumPrices failing_books started) ''SOL/USDC''
        = lastSerumPrices started ''SOL/USDC''"
    using failed_fetch_keeps_price [of failing_books "''SOL/USDC''" _ started] sol
    by simp
  ultimately show ?thesis
    using btc sol by (simp add: started_state failing_midPrice)
qed

section \<open>One exchange connection at a time\<close>

lemma control_ws_send: "control (snd (ws_send ws m s)) = control s"
  by (simp add: ws_send_def deliver_def control_def split: readyState.splits)

lemma control_calculatePriceDifference: "control (snd (calculatePriceDifference p b a s)) = control s"
  by (simp add: calculatePriceDifference_snd control_def)

lemma control_getAllPairData: "control (snd (getAllPairData s)) = control s"
  by (subst getAllPairData_snd) (simp add: control_def)

lemma control_broadcastPrices: "control (broadcastPrices s) = control s"
  by (subst broadcastPrices_other) (simp add: control_def)

lemma control_sendSinglePairData: "control (snd (sendSinglePairData ws p s)) = control s"
proof -
  have "control (snd (ws_send ws (PairMessage d) s1)) = control s"
    if "calculatePriceDifference q b a s = (d, s1)" for q b a d s1
    using control_calculatePriceDifference [of q b a s] that by (simp add: control_ws_send)
  then show ?thesis
    by (auto simp: sendSinglePairData_def split: option.splits prod.splits)
qed

lemma control_sendAllPairData: "control (snd (sendAllPairData ws s)) = control s"
proof -
  obtain ds s1 where g: "getAllPairData s = (ds, s1)" by (cases "getAllPairData s")
  then have "control s1 = control s"
    using control_getAllPairData [of s] by simp
  then show ?thesis
    by (simp add: sendAllPairData_def g control_ws_send)
qed

lemma forEach_param_JStr:
  "forEach_param ws (JStr str # ps) s =
     (if hd (split (CHR ''.'') str) = ''difference''
      then (case sendSinglePairData ws
                  (if 1 < length (split (CHR ''.'') str) then Some (split (CHR ''.'') str ! 1)
                   else None) s of
              (Some e, s1) \<Rightarrow> (Some e, s1)
            | (None, s1) \<Rightarrow> forEach_param ws ps s1)
      else forEach_param ws ps s)"
  by (simp add: Let_def)

lemma control_forEach_param: "control (snd (forEach_param ws ps s)) = control s"
proof (induction ps arbitrary: s)
  case Nil
  then show ?case by simp
next
  case (Cons param ps)
  show ?case
  proof (cases param)
    case (JStr str)
    define q where "q = (if 1 < length (split (CHR ''.'') str) then Some (split (CHR ''.'') str ! 1) else None)"
    obtain r s1 where snd1: "sendSinglePairData ws q s = (r, s1)"
      by (cases "sendSinglePairData ws q s")
    then have c1: "control s1 = control s"
      using control_sendSinglePairData [of ws q s] by simp
    show ?thesis
    proof (cases "hd (split (CHR ''.'') str) = ''difference''")
      case True
      then have "forEach_param ws (param # ps) s
          = (case r of Some e \<Rightarrow> (Some e, s1) | None \<Rightarrow> forEach_param ws ps s1)"
        unfolding JStr forEach_param_JStr q_def [symmetric] snd1
        by (cases r) simp_all
      then show ?thesis
        using Cons.IH [of s1] c1 by (cases r) simp_all
    next
      case False
      then have "forEach_param ws (param # ps) s = forEach_param ws ps s"
        unfolding JStr forEach_param_JStr by simp
      then show ?thesis
        using Cons.IH [of s] by simp
    qed
  qed simp_all
qed

lemma control_handleSubscription: "control (snd (handleSubscription ws params s)) = control s"
  by (cases params)
    (simp_all add: handleSubscription_def control_sendAllPairData control_forEach_param)

lemma control_console_error: "control (console_error text e s) = control s"
  by (simp add: console_error_def control_def)

lemma control_console_log: "control (console_log text s) = control s"
  by (simp add: console_log_def control_def)

lemma control_on_client_message: "control (on_client_message ws data s) = control s"
proof (cases "JSON_parse data")
  case (Inl e)
  then show ?thesis by (simp add: on_client_message_def control_console_error)
next
  case (Inr parsedMessage)
  show ?thesis
  proof (cases "get_prop parsedMessage ''method''")
    case (Inl e)
    then show ?thesis by (simp add: on_client_message_def Inr control_console_error)
  next
    case m: (Inr requested)
    show ?thesis
    proof (cases "requested = JStr ''SUBSCRIBE''")
      case False
      then show ?thesis by (simp add: on_client_message_def Inr m)
    next
      case True
      show ?thesis
      proof (cases "get_prop parsedMessage ''params''")
        case (Inl e)
        then show ?thesis by (simp add: on_client_message_def Inr m True control_console_error)
      next
        case p: (Inr params)
        obtain r s1 where h: "handleSubscription ws params s = (r, s1)"
          by (cases "handleSubscription ws params s")
        then have "control s1 = control s"
          using control_handleSubscription [of ws params s] by simp
        then show ?thesis
          by (cases r) (simp_all add: on_client_message_def Inr m True p h control_console_error)
      qed
    qed
  qed
qed

lemma control_on_binance_message:
  assumes "on_binance_message data s = Inr s1"
  shows "control s1 = control s"
proof -
  have "control (broadcastPrices (s\<lparr>lastBinancePrices := x\<rparr>)) = control s" for x
    by (simp add: control_broadcastPrices) (simp add: control_def)
  with assms show ?thesis
    by (auto simp: on_binance_message_def split: sum.splits option.splits if_splits)
qed

lemma control_update_price: "control (update_price n b s) = control s"
  by (auto simp: update_price_def control_console_error Let_def
      split: sum.splits option.splits) (simp add: control_def)

lemma control_update_prices: "control (update_prices ms fetch s) = control s"
proof (induction ms arbitrary: s)
  case Nil
  then show ?case by simp
next
  case (Cons m ms)
  then show ?case
    by (cases m) (simp add: control_update_price)
qed

lemma control_updateAllSerumPrices: "control (updateAllSerumPrices fetch s) = control s"
  by (simp add: updateAllSerumPrices_def control_broadcastPrices control_update_prices)

lemma control_same:
  assumes "control s1 = control s"
  shows "disciplined s1 = disciplined s" "live s1 = live s" "reconnects s1 = reconnects s"
    "binance_sockets s1 = binance_sockets s" "now s1 = now s"
  using assms by (simp_all add: disciplined_def live_def reconnects_def control_def)

lemma filter_remove_nth:
  assumes "i < length xs"
  shows "length (filter P (take i xs @ drop (Suc i) xs)) + (if P (xs ! i) then 1 else 0)
         = length (filter P xs)"
    and "\<not> P (xs ! i) \<Longrightarrow> filter P (take i xs @ drop (Suc i) xs) = filter P xs"
proof -
  have xs: "xs = take i xs @ xs ! i # drop (Suc i) xs"
    using assms by (rule id_take_nth_drop)
  show "\<not> P (xs ! i) \<Longrightarrow> filter P (take i xs @ drop (Suc i) xs) = filter P xs"
    by (subst (3) xs) simp
  show "length (filter P (take i xs @ drop (Suc i) xs)) + (if P (xs ! i) then 1 else 0)
         = length (filter P xs)"
    by (subst (4) xs) simp
qed

lemma filter_update_nth:
  assumes "i < length xs" "\<not> P (xs ! i)" "\<not> P y"
  shows "filter P (xs[i := y]) = filter P xs"
proof -
  have xs: "xs = take i xs @ xs ! i # drop (Suc i) xs"
    using assms(1) by (rule id_take_nth_drop)
  have "filter P (xs[i := y]) = filter P (take i xs @ y # drop (Suc i) xs)"
    using assms(1) by (simp add: upd_conv_take_nth_drop)
  also have "\<dots> = filter P xs"
    using assms(2,3) by (subst (3) xs) simp
  finally show ?thesis .
qed

lemma live_cong:
  assumes "binance_sockets s1 = binance_sockets s"
    and "\<And>ws. ws \<in> set (binance_sockets s) \<Longrightarrow> (readyState s1 ws = CLOSED) = (readyState s ws = CLOSED)"
  shows "live s1 = live s"
  unfolding live_def assms(1) using assms(2) by (auto intro: filter_cong)

lemma not_reconnect_cases:
  "\<not> is_reconnect t \<Longrightarrow>
   (\<exists>d. t = Timeout d UpdateAllSerumPrices) \<or> (\<exists>d p f. t = Interval d p f)"
  by (cases t rule: is_reconnect.cases) auto

lemma step_quiet:
  assumes d: "disciplined s" and en: "enabled e s" and st: "step e s = Inr s1" and q: "quiet e s"
  shows "disciplined s1 \<and> live s1 = live s \<and> reconnects s1 = reconnects s
         \<and> binance_sockets s1 = binance_sockets s \<and> now s \<le> now s1"
proof (cases e)
  case Connection
  then have s1: "s1 = on_connection s" using st by simp
  have fresh: "sockets s \<notin> set (binance_sockets s)" "sockets s \<notin> set (clients s)"
    using d by (auto simp: disciplined_def)
  have l: "live s1 = live s"
    by (rule live_cong) (use fresh in \<open>auto simp: s1 on_connection_def console_log_def Let_def\<close>)
  have "disciplined s1"
    using d fresh
    by (auto simp: s1 on_connection_def console_log_def Let_def disciplined_def less_Suc_eq)
  then show ?thesis
    using l by (simp add: s1 on_connection_def console_log_def Let_def reconnects_def)
next
  case (ClientMessage ws data)
  then have "control s1 = control s"
    using st by (auto simp: control_on_client_message)
  from control_same [OF this] show ?thesis
    using d by simp
next
  case (ClientClosing ws)
  then have s1: "s1 = set_state ws CLOSING s" and ws: "ws \<in> set (clients s)"
    using st en by auto
  then have nb: "ws \<notin> set (binance_sockets s)"
    using d by (auto simp: disciplined_def)
  have l: "live s1 = live s"
    by (rule live_cong) (use nb in \<open>auto simp: s1 set_state_def\<close>)
  have "disciplined s1"
    using d by (simp add: s1 set_state_def disciplined_def)
  then show ?thesis
    using l by (simp add: s1 set_state_def reconnects_def)
next
  case (ClientClose ws)
  then have s1: "s1 = on_client_close ws (set_state ws CLOSED s)" and ws: "ws \<in> set (clients s)"
    using st en by auto
  then have nb: "ws \<notin> set (binance_sockets s)"
    using d by (auto simp: disciplined_def)
  have l: "live s1 = live s"
    by (rule live_cong)
      (use nb in \<open>auto simp: s1 set_state_def on_client_close_def console_log_def Let_def\<close>)
  have "disciplined s1"
    using d by (auto simp: s1 set_state_def on_client_close_def console_log_def Let_def disciplined_def)
  then show ?thesis
    using l by (simp add: s1 set_state_def on_client_close_def console_log_def Let_def reconnects_def)
next
  case (BinanceOpen ws)
  then have s1: "s1 = on_binance_open (set_state ws OPEN s)" and ws: "readyState s ws = CONNECTING"
    using st en by auto
  have l: "live s1 = live s"
    by (rule live_cong) (use ws in \<open>auto simp: s1 set_state_def on_binance_open_def console_log_def\<close>)
  have "disciplined s1"
    using d by (simp add: s1 set_state_def on_binance_open_def console_log_def disciplined_def)
  then show ?thesis
    using l by (simp add: s1 set_state_def on_binance_open_def console_log_def reconnects_def)
next
  case (BinanceMessage ws data)
  then have "control s1 = control s"
    using st by (auto simp: control_on_binance_message)
  from control_same [OF this] show ?thesis
    using d by simp
next
  case (BinanceError ws err)
  then have "control s1 = control s"
    using st by (auto simp: on_binance_error_def control_console_error)
  from control_same [OF this] show ?thesis
    using d by simp
next
  case (BinanceClose ws)
  then show ?thesis using q by simp
next
  case (Elapse dt)
  then have s1: "s1 = s\<lparr>now := now s + dt\<rparr>" using st by auto
  show ?thesis
    using d by (simp add: s1 disciplined_def live_def reconnects_def)
next
  case (Fire i fetch)
  then have s1: "s1 = fire i fetch s" and i: "i < length (pending s)"
    and nr: "\<not> is_reconnect (pending s ! i)"
    using st en q by auto
  have mem: "pending s ! i \<in> set (pending s)"
    using i by simp
  from not_reconnect_cases [OF nr] show ?thesis
  proof (elim disjE exE)
    fix t
    assume t: "pending s ! i = Timeout t UpdateAllSerumPrices"
    let ?s0 = "s\<lparr>pending := take i (pending s) @ drop (Suc i) (pending s)\<rparr>"
    have s1': "s1 = updateAllSerumPrices fetch ?s0"
      by (simp add: s1 fire_def t)
    then have c: "control s1 = control ?s0"
      by (simp add: control_updateAllSerumPrices)
    have "disciplined ?s0"
      using d by (fastforce simp: disciplined_def dest: in_set_takeD in_set_dropD)
    moreover have "reconnects ?s0 = reconnects s"
      using filter_remove_nth(2) [OF i, of is_reconnect] nr by (simp add: reconnects_def)
    moreover have "live ?s0 = live s"
      by (simp add: live_def)
    ultimately show ?thesis
      using control_same [OF c] by simp
  next
    fix t p f
    assume t: "pending s ! i = Interval t p f"
    have f: "f = UpdateAllSerumPrices"
      using d mem t by (cases f) (auto simp: disciplined_def)
    let ?s0 = "s\<lparr>pending := (pending s)[i := Interval (now s + p) p f]\<rparr>"
    have s1': "s1 = updateAllSerumPrices fetch ?s0"
      by (simp add: s1 fire_def t f)
    then have c: "control s1 = control ?s0"
      by (simp add: control_updateAllSerumPrices)
    have "set ((pending s)[i := Interval (now s + p) p f]) \<subseteq> insert (Interval (now s + p) p f) (set (pending s))"
      by (rule set_update_subset_insert)
    then have "\<And>x. x \<in> set ((pending s)[i := Interval (now s + p) p f]) \<Longrightarrow>
        x = Interval (now s + p) p f \<or> x \<in> set (pending s)"
      by blast
    then have "disciplined ?s0"
      using d f by (fastforce simp: disciplined_def)
    moreover have "reconnects ?s0 = reconnects s"
      using filter_update_nth [of i "pending s" is_reconnect "Interval (now s + p) p f"] i nr
      by (simp add: reconnects_def)
    moreover have "live ?s0 = live s"
      by (simp add: live_def)
    ultimately show ?thesis
      using control_same [OF c] by simp
  qed
qed

lemma step_close:
  assumes d: "disciplined s" and en: "enabled (BinanceClose ws) s"
    and s1: "s1 = on_binance_close (set_state ws CLOSED s)"
  shows "disciplined s1 \<and> live s1 = filter (\<lambda>w. w \<noteq> ws) (live s)
         \<and> reconnects s1 = reconnects s @ [Timeout (now s + 5000) StartBinanceWebSockets]
         \<and> binance_sockets s1 = binance_sockets s \<and> now s1 = now s"
proof -
  have "live s1 = filter (\<lambda>w. w \<noteq> ws) (live s)"
    by (auto simp: s1 live_def on_binance_close_def set_state_def setTimeout_def
        console_log_def intro: filter_cong)
  moreover have "disciplined s1"
    using d
    by (auto simp: s1 disciplined_def on_binance_close_def set_state_def setTimeout_def
        console_log_def)
  ultimately show ?thesis
    by (simp add: s1 reconnects_def on_binance_close_def set_state_def setTimeout_def
        console_log_def)
qed

lemma is_reconnect_cases: "is_reconnect t \<Longrightarrow> \<exists>d. t = Timeout d StartBinanceWebSockets"
  by (cases t rule: is_reconnect.cases) auto

lemma step_reconnect:
  assumes d: "disciplined s" and i: "i < length (pending s)" and r: "is_reconnect (pending s ! i)"
    and s1_def: "s1 = fire i fetch s"
  shows "disciplined s1 \<and> live s1 = live s @ [sockets s]
         \<and> length (reconnects s1) + 1 = length (reconnects s)
         \<and> binance_sockets s1 = binance_sockets s @ [sockets s] \<and> now s1 = now s"
proof -
  obtain t where t: "pending s ! i = Timeout t StartBinanceWebSockets"
    using is_reconnect_cases [OF r] by blast
  let ?s0 = "s\<lparr>pending := take i (pending s) @ drop (Suc i) (pending s)\<rparr>"
  have s1: "s1 = startBinanceWebSockets ?s0"
    by (simp add: s1_def fire_def t)
  have fresh: "sockets s \<notin> set (binance_sockets s)"
    using d by (auto simp: disciplined_def)
  have "filter (\<lambda>w. (if w = sockets s then CONNECTING else readyState s w) \<noteq> CLOSED) (binance_sockets s)
        = filter (\<lambda>w. readyState s w \<noteq> CLOSED) (binance_sockets s)"
    using fresh by (auto intro: filter_cong)
  then have l: "live s1 = live s @ [sockets s]"
    by (simp add: s1 startBinanceWebSockets_def Let_def live_def fun_upd_def)
  have "disciplined s1"
    using d
    by (fastforce simp: s1 startBinanceWebSockets_def Let_def disciplined_def less_Suc_eq
        dest: in_set_takeD in_set_dropD)
  moreover have "length (reconnects s1) + 1 = length (reconnects s)"
    using filter_remove_nth(1) [OF i, of is_reconnect] r
    by (simp add: s1 startBinanceWebSockets_def Let_def reconnects_def)
  ultimately show ?thesis
    using l by (simp add: s1 startBinanceWebSockets_def Let_def)
qed

lemma step_disciplined:
  assumes "disciplined s" "enabled e s" "step e s = Inr s1"
  shows "disciplined s1 \<and> now s \<le> now s1"
proof (cases "quiet e s")
  case True
  from step_quiet [OF assms True] show ?thesis by simp
next
  case False
  then show ?thesis
  proof (cases e)
    case (BinanceClose ws)
    then show ?thesis
      using step_close [of s ws s1] assms by auto
  next
    case (Fire i fetch)
    then show ?thesis
      using step_reconnect [of s i s1 fetch] assms False by auto
  qed simp_all
qed

lemma run_disciplined:
  "run evs s = Some s2 \<Longrightarrow> disciplined s \<Longrightarrow> disciplined s2 \<and> now s \<le> now s2"
proof (induction evs arbitrary: s)
  case Nil
  then show ?case by simp
next
  case (Cons e es)
  from Cons.prems(1) obtain s1 where en: "enabled e s" and st: "step e s = Inr s1"
    and rest: "run es s1 = Some s2"
    by (auto split: if_splits sum.splits)
  from step_disciplined [OF Cons.prems(2) en st] Cons.IH [OF rest] show ?case
    by auto
qed

lemma step_single:
  assumes s: "single_connection s" and en: "enabled e s" and st: "step e s = Inr s1"
  shows "single_connection s1"
proof -
  from s have d: "disciplined s" and c: "length (live s) + length (reconnects s) \<le> 1"
    by (simp_all add: single_connection_def)
  show ?thesis
  proof (cases "quiet e s")
    case True
    from step_quiet [OF d en st True] c show ?thesis
      by (simp add: single_connection_def)
  next
    case False
    then show ?thesis
    proof (cases e)
      case (BinanceClose ws)
      then have s1: "s1 = on_binance_close (set_state ws CLOSED s)"
        and ws: "ws \<in> set (live s)"
        using st en by (auto simp: live_def)
      have "length (filter (\<lambda>w. w \<noteq> ws) (live s)) < length (live s)"
        using ws by (simp add: length_filter_less)
      then have "length (filter (\<lambda>w. w \<noteq> ws) (live s)) = 0 \<and> length (reconnects s) = 0"
        using c by linarith
      then show ?thesis
        using step_close [OF d en [unfolded BinanceClose] s1]
        by (simp add: single_connection_def)
    next
      case (Fire i fetch)
      then have s1: "s1 = fire i fetch s" and i: "i < length (pending s)"
        and r: "is_reconnect (pending s ! i)"
        using st en False by auto
      have "pending s ! i \<in> set (reconnects s)"
        using i r by (simp add: reconnects_def)
      then have "reconnects s \<noteq> []" by auto
      then have "live s = []"
        using c by (cases "reconnects s") auto
      then show ?thesis
        using step_reconnect [OF d i r s1] c
        by (simp add: single_connection_def)
    qed simp_all
  qed
qed

lemma run_single:
  "run evs s = Some s2 \<Longrightarrow> single_connection s \<Longrightarrow> single_connection s2"
proof (induction evs arbitrary: s)
  case Nil
  then show ?case by simp
next
  case (Cons e es)
  from Cons.prems(1) obtain s1 where en: "enabled e s" and st: "step e s = Inr s1"
    and rest: "run es s1 = Some s2"
    by (auto split: if_splits sum.splits)
  from Cons.IH [OF rest step_single [OF Cons.prems(2) en st]] show ?case .
qed

lemma delay_window:
  assumes "run evs s1 = Some s2" "now s2 < D" "disciplined s1" "live s1 = []"
    "reconnects s1 = [Timeout D StartBinanceWebSockets]"
  shows "live s2 = [] \<and> reconnects s2 = [Timeout D StartBinanceWebSockets]
         \<and> binance_sockets s2 = binance_sockets s1"
  using assms
proof (induction evs arbitrary: s1)
  case Nil
  then show ?case by simp
next
  case (Cons e es)
  from Cons.prems(1) obtain s' where en: "enabled e s1" and st: "step e s1 = Inr s'"
    and rest: "run es s' = Some s2"
    by (auto split: if_splits sum.splits)
  have d': "disciplined s'" and "now s1 \<le> now s'"
    using step_disciplined [OF Cons.prems(3) en st] by simp_all
  moreover have "now s' \<le> now s2"
    using run_disciplined [OF rest d'] by simp
  ultimately have before: "now s1 < D"
    using Cons.prems(2) by simp
  have q: "quiet e s1"
  proof (cases e)
    case (BinanceClose ws)
    then have "ws \<in> set (live s1)"
      using en by (simp add: live_def)
    then show ?thesis using Cons.prems(4) by simp
  next
    case (Fire i fetch)
    then have i: "i < length (pending s1)" and due: "due (pending s1 ! i) \<le> now s1"
      using en by simp_all
    have "\<not> is_reconnect (pending s1 ! i)"
    proof
      assume "is_reconnect (pending s1 ! i)"
      then have "pending s1 ! i \<in> set (reconnects s1)"
        using i by (simp add: reconnects_def)
      then have "pending s1 ! i = Timeout D StartBinanceWebSockets"
        using Cons.prems(5) by simp
      then show False using due before by simp
    qed
    then show ?thesis using Fire by simp
  qed simp_all
  from step_quiet [OF Cons.prems(3) en st q]
  have "live s' = []" "reconnects s' = [Timeout D StartBinanceWebSockets]"
    "binance_sockets s' = binance_sockets s1"
    using Cons.prems(4,5) by simp_all
  with Cons.IH [OF rest Cons.prems(2) d'] show ?case by simp
qed

lemma control_load_markets: "control (load_markets ps load s) = control s"
proof (induction ps arbitrary: s)
  case Nil
  then show ?case by simp
next
  case (Cons p ps)
  show ?case
    by (cases "load (serumMarketAddress p)")
      (simp_all add: Cons.IH control_console_error control_console_log, simp add: control_def)
qed

lemma control_initialize:
  "control (initialize load fetch (constructor dates))
   = ([0], [Interval 1000 1000 UpdateAllSerumPrices], 0, 1, [], (\<lambda>ws. CLOSED)(0 := CONNECTING))"
proof -
  have "control (load_markets TRADING_PAIRS load ((constructor dates)\<lparr>solanaConnection := Some SOLANA_CLUSTER\<rparr>))
        = ([], [], 0, 0, [], (\<lambda>ws. CLOSED))"
    by (simp add: control_load_markets) (simp add: control_def constructor_def)
  then have "control (startBinanceWebSockets (load_markets TRADING_PAIRS load
               ((constructor dates)\<lparr>solanaConnection := Some SOLANA_CLUSTER\<rparr>)))
        = ([0], [], 0, 1, [], (\<lambda>ws. CLOSED)(0 := CONNECTING))"
    by (simp add: control_def startBinanceWebSockets_def Let_def)
  then have "control (startSerumWebSockets fetch (startBinanceWebSockets (load_markets TRADING_PAIRS load
               ((constructor dates)\<lparr>solanaConnection := Some SOLANA_CLUSTER\<rparr>))))
        = ([0], [], 0, 1, [], (\<lambda>ws. CLOSED)(0 := CONNECTING))"
    by (simp add: startSerumWebSockets_def control_console_log control_updateAllSerumPrices)
  then show ?thesis
    by (simp add: initialize_def Let_def control_console_log)
      (simp add: control_def setInterval_def)
qed

lemma single_connection_initialize:
  "single_connection (initialize load fetch (constructor dates))"
  using control_initialize [of load fetch dates]
  by (simp add: single_connection_def disciplined_def live_def reconnects_def control_def)

text \<open>
  C9. Take a state with at most one exchange connection alive or about to be made, as every
  state after \<^const>\<open>initialize\<close> is, and let an exchange socket close; then let anything
  else happen. At any moment less than 5000 ms after the close, the one pending reconnect is the
  timer set by the close, due 5000 ms after it, no exchange socket is alive and none has been
  made; and at every later moment there is still at most one connection alive or about to be
  made.
\<close>

theorem reconnect_once:
  assumes "single_connection s" and "run (BinanceClose ws # evs) s = Some s2"
  shows "single_connection s2
    \<and> (now s2 < now s + 5000 \<longrightarrow>
         reconnects s2 = [Timeout (now s + 5000) StartBinanceWebSockets]
         \<and> live s2 = [] \<and> binance_sockets s2 = binance_sockets s)"
proof -
  from assms(1) have d: "disciplined s" and c: "length (live s) + length (reconnects s) \<le> 1"
    by (simp_all add: single_connection_def)
  define s1 where "s1 = on_binance_close (set_state ws CLOSED s)"
  from assms(2) have en: "enabled (BinanceClose ws) s" and rest: "run evs s1 = Some s2"
    by (auto simp: s1_def split: if_splits)
  then have ws: "ws \<in> set (live s)"
    by (simp add: live_def)
  then have "length (live s) = 1" "reconnects s = []"
    using c by (cases "live s"; simp)+
  then have "live s = [ws]"
    using ws by (cases "live s") auto
  with step_close [OF d en s1_def] \<open>reconnects s = []\<close>
  have s1: "disciplined s1" "live s1 = []"
    "reconnects s1 = [Timeout (now s + 5000) StartBinanceWebSockets]"
    "binance_sockets s1 = binance_sockets s"
    by simp_all
  have "single_connection s2"
    using run_single [OF assms(2) assms(1)] .
  moreover have "reconnects s2 = [Timeout (now s + 5000) StartBinanceWebSockets]
         \<and> live s2 = [] \<and> binance_sockets s2 = binance_sockets s"
    if "now s2 < now s + 5000"
    using delay_window [OF rest that s1(1,2,3)] s1(4) by simp
  ultimately show ?thesis by simp
qed

theorem reconnect_once_witness:
  "single_connection (on_binance_open (set_state 0 OPEN started))
   \<and> (\<exists>s2. run [BinanceClose 0, Elapse 1000, Fire 0 example_books, Connection, Elapse 3999]
              (on_binance_open (set_state 0 OPEN started)) = Some s2
          \<and> now s2 < now (on_binance_open (set_state 0 OPEN started)) + 5000
          \<and> reconnects s2 = [Timeout 5000 StartBinanceWebSockets]
          \<and> live s2 = []
          \<and> binance_sockets s2 = [0])
   \<and> (\<exists>s3. run [BinanceClose 0, Elapse 1000, Fire 0 example_books, Connection, Elapse 3999,
               Elapse 1, Fire 1 example_books]
              (on_binance_open (set_state 0 OPEN started)) = Some s3
          \<and> reconnects s3 = [] \<and> live s3 = [2] \<and> binance_sockets s3 = [0, 2])"
proof -
  let ?s = "on_binance_open (set_state 0 OPEN started)"
  have "run [BinanceOpen 0] started = Some ?s"
    by (simp add: started_state)
  then have single: "single_connection ?s"
    using run_single single_connection_initialize [of example_load example_books example_clock]
    by (simp only: started_def [symmetric])
  have now: "now ?s = 0" and socks: "binance_sockets ?s = [0]"
    by (simp_all add: started_state on_binance_open_def set_state_def console_log_def)
  have "\<exists>s2. run [BinanceClose 0, Elapse 1000, Fire 0 example_books, Connection, Elapse 3999] ?s
          = Some s2 \<and> now s2 = 4999"
    by (simp add: started_state run_eval fire_def updateAllSerumPrices_def update_price_def
        example_books_def example_midPrice)
  then obtain s2 where s2: "run [BinanceClose 0, Elapse 1000, Fire 0 example_books, Connection,
      Elapse 3999] ?s = Some s2" and t2: "now s2 = 4999"
    by blast
  from reconnect_once [OF single s2] t2 now socks
  have "reconnects s2 = [Timeout 5000 StartBinanceWebSockets] \<and> live s2 = []
        \<and> binance_sockets s2 = [0]"
    by simp
  moreover have "\<exists>s3. run [BinanceClose 0, Elapse 1000, Fire 0 example_books, Connection,
      Elapse 3999, Elapse 1, Fire 1 example_books] ?s = Some s3
      \<and> reconnects s3 = [] \<and> live s3 = [2] \<and> binance_sockets s3 = [0, 2]"
    by (simp add: started_state run_eval fire_def updateAllSerumPrices_def update_price_def
        example_books_def example_midPrice startBinanceWebSockets_def reconnects_def live_def)
  ultimately show ?thesis
    using single s2 t2 now by auto
qed

section \<open>The registry of clients\<close>

text \<open>
  \<open>clients\<close> is a list that stands for a set: no event puts a socket into it twice.
\<close>

lemma control_clients: "control s1 = control s \<Longrightarrow> clients s1 = clients s"
  by (simp add: control_def)

lemma clients_call: "clients (call f fetch s) = clients s"
proof (cases f)
  case StartBinanceWebSockets
  then show ?thesis by (simp add: startBinanceWebSockets_def Let_def)
next
  case UpdateAllSerumPrices
  then show ?thesis
    using control_clients [OF control_updateAllSerumPrices [of fetch s]] by simp
qed

lemma step_distinct_clients:
  assumes "distinct (clients s)" "step e s = Inr s1"
  shows "distinct (clients s1)"
proof (cases e)
  case Connection
  then show ?thesis
    using assms by (auto simp: on_connection_def console_log_def Let_def)
next
  case (ClientMessage ws data)
  then show ?thesis
    using assms control_clients [OF control_on_client_message [of ws data s]] by auto
next
  case (ClientClose ws)
  then show ?thesis
    using assms
    by (auto simp: on_client_close_def set_state_def console_log_def Let_def distinct_removeAll)
next
  case (BinanceMessage ws data)
  then show ?thesis
    using assms control_clients [OF control_on_binance_message [of data s s1]] by auto
next
  case (Fire i fetch)
  then show ?thesis
    using assms by (auto simp: fire_def clients_call split: timer.splits)
qed (use assms in \<open>auto simp: set_state_def on_binance_open_def on_binance_error_def
      on_binance_close_def setTimeout_def console_log_def console_error_def\<close>)

lemma run_distinct_clients:
  "run evs s = Some s2 \<Longrightarrow> distinct (clients s) \<Longrightarrow> distinct (clients s2)"
proof (induction evs arbitrary: s)
  case Nil
  then show ?case by simp
next
  case (Cons e es)
  from Cons.prems(1) obtain s1 where st: "step e s = Inr s1" and rest: "run es s1 = Some s2"
    by (auto split: if_splits sum.splits)
  from Cons.IH [OF rest step_distinct_clients [OF Cons.prems(2) st]] show ?case .
qed

lemma clients_initialize: "clients (initialize load fetch (constructor dates)) = []"
  using control_initialize [of load fetch dates] by (simp add: control_def)

end
